theory Spec2Isabelle
  imports
    Complex_Main
    "HOL-Library.Multiset"
    "HOL-Library.AList"
    "HOL-Library.Char_ord"
    "HOL-Library.List_Lexorder"
begin

section \<open>Batch deshield pattern detector (ml-pattern-detector.py)\<close>

text \<open>
  A shallow embedding of the clustering front end, the scorer, the pattern
  assembler and the detection loop of \<^verbatim>\<open>server/api/scripts/ml-pattern-detector.py\<close>.

  Conventions of the embedding.
  \<^item> Python integers are \<^typ>\<open>int\<close>; the int64 arithmetic of a numpy integer
    array wraps around (\<open>int64\<close>).
  \<^item> A float64 value is the \<^typ>\<open>real\<close> number it denotes, and every float
    operation of the script (a division, a multiplication, a subtraction, a
    square root) returns the exact result rounded to the nearest float64, ties
    to even (\<open>fl64\<close>). Overflow and subnormal numbers are not modelled. Two
    results of numpy are taken without their rounding: the float sum inside
    \<^verbatim>\<open>np.mean\<close> and \<^verbatim>\<open>np.std\<close> (exact while the partial sums stay below
    \<open>2^53\<close>, as sums of amounts in zatoshi do), and the value of \<^verbatim>\<open>np.log10\<close>,
    which only DBSCAN reads. The remainder \<^verbatim>\<open>x % d\<close> of two positive floats is
    exact. A comparison with a decimal literal of the script (0.0001, 0.001,
    0.01, 0.1) is made with the literal itself: the float64 nearest to each of
    them lies above it, so a float64 is below the one exactly when it is below
    the other.
  \<^item> A raised exception is a value \<open>Inl e\<close> of the result type.
  \<^item> The database rows and the library routines the script calls (the two
    SELECT queries, sklearn's DBSCAN, hashlib's SHA-256) are parameters of
    the functions that use them.
  \<^item> A Python dict that is iterated (the clusters) is an association list in
    insertion order.
\<close>

subsection \<open>Data model\<close>

datatype error = ValueError | IndexError | OperationalError

text \<open>One row of \<^verbatim>\<open>shielded_flows\<close>, as \<^verbatim>\<open>fetch_deshields\<close> and \<^verbatim>\<open>fetch_shields\<close> return it.\<close>

record tx =
  txid :: string
  block_height :: int
  block_time :: int
  amount_zat :: int
  pool :: string

datatype warning = HIGH | MEDIUM | LOW

text \<open>The \<^verbatim>\<open>breakdown\<close> dict of \<^verbatim>\<open>score_cluster\<close>, one group of fields per factor.\<close>

record breakdown =
  cluster_size_count :: nat
  cluster_size_points :: int
  uniformity_cv :: real
  uniformity_points :: int
  round_number_amount_zec :: real
  round_number_is_round :: bool
  round_number_points :: int
  time_clustering_hours :: real
  time_clustering_points :: int
  matching_shield_found :: bool
  matching_shield_txid :: "string option"
  matching_shield_points :: int

record stats =
  avg_amount_zec :: real
  amount_std_zec :: real
  time_span_hours :: real

record score_result =
  score :: int
  warning_level :: warning
  breakdown :: breakdown
  stats :: stats

subsection \<open>Numeric helpers\<close>

text \<open>Rounding of a real number to the nearest integer, ties to the even one.\<close>

definition round_even :: "real \<Rightarrow> int" where
  "round_even y =
     (let f = \<lfloor>y\<rfloor>; r = y - of_int f
      in if r < 1 / 2 then f else if r > 1 / 2 then f + 1 else if even f then f else f + 1)"

text \<open>
  Rounding to float64: the nearest multiple of the unit in the last place,
  which for \<open>2^e \<le> |x| < 2^(e+1)\<close> is \<open>2^(e - 52)\<close> (a significand of 53 bits).
\<close>

definition fl64 :: "real \<Rightarrow> real" where
  "fl64 x =
     (if x = 0 then 0
      else let e = \<lfloor>log 2 \<bar>x\<bar>\<rfloor>; ulp = 2 powr (of_int e - 52)
           in ulp * of_int (round_even (x / ulp)))"

text \<open>Wrap-around of 64-bit signed integer arithmetic.\<close>

definition int64 :: "int \<Rightarrow> int" where
  "int64 x = (x + 2 ^ 63) mod 2 ^ 64 - 2 ^ 63"

text \<open>
  \<^verbatim>\<open>np.mean\<close> of a list of integers: the sum divided by the count. \<^verbatim>\<open>np.std\<close>
  (population standard deviation): the deviations from the mean, their
  squares, the mean of the squares and its square root, each a float
  operation.
\<close>

definition np_mean :: "int list \<Rightarrow> real" where
  "np_mean xs = fl64 (real_of_int (sum_list xs) / real (length xs))"

definition np_std :: "int list \<Rightarrow> real" where
  "np_std xs =
     (let mean = np_mean xs;
          squares = map (\<lambda>x. fl64 ((fl64 (fl64 (real_of_int x) - mean))\<^sup>2)) xs
      in fl64 (sqrt (fl64 (sum_list squares / real (length xs)))))"

text \<open>
  Python's \<^verbatim>\<open>x % d\<close> on floats, for a positive divisor; the result is exact, so
  there is no rounding.
\<close>

definition py_mod :: "real \<Rightarrow> real \<Rightarrow> real" where
  "py_mod x d = x - d * of_int \<lfloor>x / d\<rfloor>"

text \<open>Python's \<^verbatim>\<open>min\<close> and \<^verbatim>\<open>max\<close> of a list; both raise ValueError on an empty one.\<close>

fun py_min :: "int list \<Rightarrow> error + int" where
  "py_min [] = Inl ValueError"
| "py_min (x # xs) = Inr (fold min xs x)"

fun py_max :: "int list \<Rightarrow> error + int" where
  "py_max [] = Inl ValueError"
| "py_max (x # xs) = Inr (fold max xs x)"

subsection \<open>The scorer: \<^verbatim>\<open>score_cluster\<close>\<close>

text \<open>Factor 1, lines 243-253: cluster size.\<close>

definition size_score :: "nat \<Rightarrow> int" where
  "size_score sz =
     (if sz \<ge> 12 then 30
      else if sz \<ge> 8 then 22
      else if sz \<ge> 5 then 15
      else 10)"

text \<open>Factor 2, lines 256-267: coefficient of variation and uniformity points.\<close>

definition cv_of :: "real \<Rightarrow> real \<Rightarrow> real" where
  "cv_of amount_std avg_amount =
     (if avg_amount > 0 then fl64 (amount_std / avg_amount) else 0)"

definition uniformity_score :: "real \<Rightarrow> int" where
  "uniformity_score cv =
     (if cv < 0.0001 then 15
      else if cv < 0.001 then 10
      else if cv < 0.01 then 5
      else 0)"

text \<open>Factor 3, lines 270-288: round number detection, with the bonus branch last.\<close>

definition round_score :: "real \<Rightarrow> int \<Rightarrow> int" where
  "round_score amount_zec uniformity_pts =
     (if amount_zec \<ge> 1000 \<and> py_mod amount_zec 1000 < 0.01 then 20
      else if amount_zec \<ge> 500 \<and> py_mod amount_zec 500 < 0.01 then 18
      else if amount_zec \<ge> 100 \<and> py_mod amount_zec 100 < 0.01 then 15
      else if amount_zec \<ge> 50 \<and> py_mod amount_zec 50 < 0.01 then 12
      else if amount_zec \<ge> 10 \<and> py_mod amount_zec 10 < 0.01 then 10
      else if amount_zec \<ge> 1 \<and> py_mod amount_zec 1 < 0.001 then 5
      else if uniformity_pts \<ge> 10 then 8
      else 0)"

text \<open>Factor 4, lines 291-302: time clustering.\<close>

definition time_score :: "real \<Rightarrow> int" where
  "time_score hours =
     (if hours < 6 then 12
      else if hours < 24 then 10
      else if hours < 72 then 6
      else if hours < 168 then 3
      else 0)"

text \<open>Factor 5, lines 306-322: matching shield.\<close>

definition diff_pct :: "int \<Rightarrow> int \<Rightarrow> real" where
  "diff_pct total_deshielded shield_amount =
     (if shield_amount > 0
      then fl64 (fl64 (real_of_int \<bar>total_deshielded - shield_amount\<bar>
                         / real_of_int shield_amount) * 100)
      else 100)"

definition match_score :: "int list \<Rightarrow> tx option \<Rightarrow> int" where
  "match_score amounts matching_shield =
     (case matching_shield of
        None \<Rightarrow> 0
      | Some shield \<Rightarrow>
          (let d = diff_pct (sum_list amounts) (amount_zat shield)
           in if d < 0.01 then 25
              else if d < 0.1 then 22
              else if d < 1 then 18
              else if d < 5 then 12
              else 5))"

text \<open>Lines 332-338: the warning level of a score.\<close>

definition warning_of :: "int \<Rightarrow> warning" where
  "warning_of s = (if s \<ge> 70 then HIGH else if s \<ge> 50 then MEDIUM else LOW)"

text \<open>
  The whole function. \<^verbatim>\<open>min(times)\<close> is its first statement that raises on an
  empty cluster (numpy's mean and std of an empty list are NaN with a warning).
\<close>

definition score_cluster :: "tx list \<Rightarrow> tx option \<Rightarrow> error + score_result" where
  "score_cluster cluster matching_shield =
     (let amounts = map amount_zat cluster;
          times = map block_time cluster;
          avg_amount = np_mean amounts;
          amount_std = np_std amounts;
          amount_zec = fl64 (avg_amount / 10 ^ 8)
      in case py_min times of
           Inl e \<Rightarrow> Inl e
         | Inr first_time \<Rightarrow>
        (case py_max times of
           Inl e \<Rightarrow> Inl e
         | Inr last_time \<Rightarrow>
        (let hours = fl64 (real_of_int (last_time - first_time) / 3600);
             size_pts = size_score (length cluster);
             cv = cv_of amount_std avg_amount;
             uniformity_pts = uniformity_score cv;
             round_pts = round_score amount_zec uniformity_pts;
             time_pts = time_score hours;
             match_pts = match_score amounts matching_shield;
             total = min (size_pts + uniformity_pts + round_pts + time_pts + match_pts) 100
         in Inr \<lparr> score = total,
                  warning_level = warning_of total,
                  breakdown = \<lparr>
                    cluster_size_count = length cluster,
                    cluster_size_points = size_pts,
                    uniformity_cv = cv,
                    uniformity_points = uniformity_pts,
                    round_number_amount_zec = amount_zec,
                    round_number_is_round = (round_pts \<ge> 10),
                    round_number_points = round_pts,
                    time_clustering_hours = hours,
                    time_clustering_points = time_pts,
                    matching_shield_found = (matching_shield \<noteq> None),
                    matching_shield_txid = map_option txid matching_shield,
                    matching_shield_points = match_pts \<rparr>,
                  stats = \<lparr>
                    avg_amount_zec = amount_zec,
                    amount_std_zec = fl64 (amount_std / 10 ^ 8),
                    time_span_hours = hours \<rparr> \<rparr>)))"

subsection \<open>The pattern hash: \<^verbatim>\<open>generate_pattern_hash\<close>\<close>

text \<open>\<^verbatim>\<open>sep.join(xs)\<close> on strings.\<close>

fun join :: "string \<Rightarrow> string list \<Rightarrow> string" where
  "join sep [] = []"
| "join sep [x] = x"
| "join sep (x # y # ys) = x @ sep @ join sep (y # ys)"

text \<open>
  Lines 115-118. \<^verbatim>\<open>sorted\<close> orders strings lexicographically by character code,
  which is the order of \<^typ>\<open>string\<close> here. The digest function of hashlib is the
  parameter \<open>sha256_hexdigest\<close>.
\<close>

definition generate_pattern_hash :: "(string \<Rightarrow> string) \<Rightarrow> string list \<Rightarrow> string" where
  "generate_pattern_hash sha256_hexdigest txids =
     (let sorted_txids = join '','' (sort txids)
      in sha256_hexdigest sorted_txids)"

subsection \<open>The clusterer: \<^verbatim>\<open>cluster_by_amount\<close>\<close>

text \<open>
  \<^verbatim>\<open>np.log10\<close> on an element of an int64 array: minus infinity at 0 and NaN
  below 0; numpy does not raise there, it issues a RuntimeWarning for the
  array: "divide by zero encountered in log10" when an element is 0 and
  "invalid value encountered in log10" when an element is negative.
\<close>

datatype npfloat = Finite real | NegInf | NaN

definition np_log10 :: "int \<Rightarrow> npfloat" where
  "np_log10 x =
     (if x > 0 then Finite (log 10 (real_of_int x)) else if x = 0 then NegInf else NaN)"

datatype np_warning = DivideByZero | InvalidValue

definition log10_warnings :: "int list \<Rightarrow> np_warning set" where
  "log10_warnings xs =
     (if list_ex (\<lambda>x. x = 0) xs then {DivideByZero} else {})
     \<union> (if list_ex (\<lambda>x. x < 0) xs then {InvalidValue} else {})"

text \<open>
  sklearn's \<^verbatim>\<open>DBSCAN(eps, min_samples, metric='euclidean').fit(points).labels_\<close>:
  one label per point, \<open>-1\<close> for noise, or an exception.
\<close>

type_synonym dbscan = "real \<Rightarrow> int \<Rightarrow> npfloat list \<Rightarrow> error + int list"

text \<open>A DBSCAN run whose \<^verbatim>\<open>labels_\<close> are the given list.\<close>

definition dbscan_labels :: "int list \<Rightarrow> dbscan" where
  "dbscan_labels labels eps min_samples points = Inr labels"

text \<open>A DBSCAN run that raises.\<close>

definition dbscan_raises :: "error \<Rightarrow> dbscan" where
  "dbscan_raises e eps min_samples points = Inl e"

type_synonym clusters = "(int \<times> tx list) list"

text \<open>
  Lines 211-213: \<^verbatim>\<open>if label not in clusters: clusters[label] = []\<close> followed by
  \<^verbatim>\<open>clusters[label].append(tx)\<close>. A new key goes to the end of the dict, an
  existing key keeps its place.
\<close>

definition dict_append :: "clusters \<Rightarrow> int \<Rightarrow> tx \<Rightarrow> clusters" where
  "dict_append clusters label t =
     (case map_of clusters label of
        None \<Rightarrow> clusters @ [(label, [t])]
      | Some members \<Rightarrow> AList.update label (members @ [t]) clusters)"

text \<open>
  Lines 208-213: the loop over \<^verbatim>\<open>enumerate(clustering.labels_)\<close>; \<open>i\<close> is the
  running index and \<^verbatim>\<open>deshields[i]\<close> raises IndexError out of range.
\<close>

fun group_by_label :: "int list \<Rightarrow> nat \<Rightarrow> tx list \<Rightarrow> clusters \<Rightarrow> error + clusters" where
  "group_by_label [] i deshields clusters = Inr clusters"
| "group_by_label (label # labels) i deshields clusters =
     (if label = -1 then group_by_label labels (Suc i) deshields clusters
      else if i < length deshields
        then group_by_label labels (Suc i) deshields (dict_append clusters label (deshields ! i))
      else Inl IndexError)"

text \<open>
  Lines 196-200: \<^verbatim>\<open>log_amounts = np.log10(amounts + 1)\<close> on the int64 array of
  the amounts.
\<close>

definition log_amounts :: "tx list \<Rightarrow> npfloat list" where
  "log_amounts deshields = map (\<lambda>t. np_log10 (int64 (amount_zat t + 1))) deshields"

definition cluster_by_amount :: "dbscan \<Rightarrow> tx list \<Rightarrow> real \<Rightarrow> int \<Rightarrow> error + clusters" where
  "cluster_by_amount dbscan deshields eps min_samples =
     (if int (length deshields) < min_samples then Inr []
      else case dbscan eps min_samples (log_amounts deshields) of
          Inl e \<Rightarrow> Inl e
        | Inr labels \<Rightarrow> group_by_label labels 0 deshields [])"

text \<open>
  The warnings issued while lines 192-200 run, before DBSCAN is called: the
  function prints nothing itself, and \<^verbatim>\<open>np.log10\<close> is its only call that warns.
\<close>

definition cluster_by_amount_warnings :: "tx list \<Rightarrow> int \<Rightarrow> np_warning set" where
  "cluster_by_amount_warnings deshields min_samples =
     (if int (length deshields) < min_samples then {}
      else log10_warnings (map (\<lambda>t. int64 (amount_zat t + 1)) deshields))"

subsection \<open>The assembler: \<^verbatim>\<open>build_pattern\<close>\<close>

record shield_info =
  shield_txid :: string
  shield_amount_zec :: real
  shield_block_height :: int
  shield_block_time :: int

text \<open>
  The pattern dict. The \<^verbatim>\<open>explanation\<close> string (formatted floats) is left out,
  and the keys that \<^verbatim>\<open>score_cluster\<close> already uses carry the prefix \<open>pattern_\<close>.
\<close>

record pattern =
  pattern_type :: string
  detection_method :: string
  batch_count :: nat
  per_tx_amount_zat :: int
  per_tx_amount_zec :: real
  total_amount_zat :: int
  total_amount_zec :: real
  txids :: "string list"
  heights :: "int list"
  block_times :: "int list"
  first_time :: int
  last_time :: int
  pattern_time_span_hours :: real
  pattern_score :: int
  pattern_warning_level :: warning
  pattern_breakdown :: breakdown
  pattern_stats :: stats
  shield_txids :: "string list option"
  matching_shield :: "shield_info option"

text \<open>Python's \<^verbatim>\<open>int(x)\<close> on a float: truncation towards zero.\<close>

definition py_int :: "real \<Rightarrow> int" where
  "py_int x = (if x \<ge> 0 then \<lfloor>x\<rfloor> else \<lceil>x\<rceil>)"

text \<open>
  Lines 352-409. On an empty cluster \<^verbatim>\<open>int(np.mean(amounts))\<close> is the first
  statement that raises (the mean is NaN).
\<close>

definition build_pattern :: "tx list \<Rightarrow> score_result \<Rightarrow> tx option \<Rightarrow> error + pattern" where
  "build_pattern cluster score_result matching =
     (let amounts = map amount_zat cluster;
          ts = map block_time cluster;
          total_zat = sum_list amounts
      in if cluster = [] then Inl ValueError
         else
        (let avg_zat = py_int (np_mean amounts)
         in case py_min ts of
              Inl e \<Rightarrow> Inl e
            | Inr min_time \<Rightarrow>
           (case py_max ts of
              Inl e \<Rightarrow> Inl e
            | Inr max_time \<Rightarrow>
              Inr \<lparr> pattern_type = ''BATCH_DESHIELD_ML'',
                    detection_method = ''DBSCAN_CLUSTERING'',
                    batch_count = length cluster,
                    per_tx_amount_zat = avg_zat,
                    per_tx_amount_zec = fl64 (fl64 (real_of_int avg_zat) / 10 ^ 8),
                    total_amount_zat = total_zat,
                    total_amount_zec = fl64 (fl64 (real_of_int total_zat) / 10 ^ 8),
                    txids = map txid cluster,
                    heights = map block_height cluster,
                    block_times = ts,
                    first_time = min_time,
                    last_time = max_time,
                    pattern_time_span_hours = fl64 (real_of_int (max_time - min_time) / 3600),
                    pattern_score = score score_result,
                    pattern_warning_level = warning_level score_result,
                    pattern_breakdown = breakdown score_result,
                    pattern_stats = stats score_result,
                    shield_txids = map_option (\<lambda>s. [txid s]) matching,
                    matching_shield = map_option (\<lambda>s.
                      \<lparr> shield_txid = txid s,
                        shield_amount_zec = fl64 (fl64 (real_of_int (amount_zat s)) / 10 ^ 8),
                        shield_block_height = block_height s,
                        shield_block_time = block_time s \<rparr>) matching \<rparr>)))"

subsection \<open>The detection run: \<^verbatim>\<open>detect_patterns\<close>\<close>

text \<open>
  The two queries are parameters: \<open>fetch_deshields period_days min_amount_zat\<close>
  and \<open>fetch_shields total_amount_zat before_time\<close>; a failure of the database
  is an error value. Printing and \<^verbatim>\<open>store_pattern\<close> (which catches its own
  exceptions and whose result the loop ignores) do not influence the returned
  list and are left out.
\<close>

type_synonym fetch = "int \<Rightarrow> int \<Rightarrow> error + tx list"

text \<open>A query that succeeds with the given rows, whatever its arguments.\<close>

definition query_result :: "tx list \<Rightarrow> fetch" where
  "query_result rows a b = Inr rows"

text \<open>
  Lines 452-472, the body of the loop for one cluster: \<open>None\<close> is
  \<^verbatim>\<open>continue\<close>, \<open>Some p\<close> is the pattern appended.
\<close>

definition process_cluster :: "fetch \<Rightarrow> int \<Rightarrow> tx list \<Rightarrow> error + pattern option" where
  "process_cluster fetch_shields min_cluster_size cluster =
     (if int (length cluster) < min_cluster_size then Inr None
      else
        (let total_zat = sum_list (map amount_zat cluster)
         in case py_min (map block_time cluster) of
              Inl e \<Rightarrow> Inl e
            | Inr first \<Rightarrow>
           (case fetch_shields total_zat first of
              Inl e \<Rightarrow> Inl e
            | Inr matching_shields \<Rightarrow>
             (let matching = (case matching_shields of [] \<Rightarrow> None | s # _ \<Rightarrow> Some s)
              in case score_cluster cluster matching of
                   Inl e \<Rightarrow> Inl e
                 | Inr score_result \<Rightarrow>
                     if score score_result < 35 then Inr None
                     else map_sum id Some (build_pattern cluster score_result matching)))))"

text \<open>Lines 449-472: the loop over \<^verbatim>\<open>clusters.items()\<close>, in insertion order.\<close>

fun collect_patterns :: "fetch \<Rightarrow> int \<Rightarrow> clusters \<Rightarrow> pattern list \<Rightarrow> error + pattern list" where
  "collect_patterns fetch_shields min_cluster_size [] patterns = Inr patterns"
| "collect_patterns fetch_shields min_cluster_size ((label, cluster) # rest) patterns =
     (case process_cluster fetch_shields min_cluster_size cluster of
        Inl e \<Rightarrow> Inl e
      | Inr None \<Rightarrow> collect_patterns fetch_shields min_cluster_size rest patterns
      | Inr (Some p) \<Rightarrow> collect_patterns fetch_shields min_cluster_size rest (patterns @ [p]))"

text \<open>
  \<^verbatim>\<open>list.sort(key=..., reverse=True)\<close>: CPython reverses the list, sorts it
  stably in ascending order of the key, and reverses the result.
\<close>

definition py_sort_reverse :: "('a \<Rightarrow> int) \<Rightarrow> 'a list \<Rightarrow> 'a list" where
  "py_sort_reverse key xs = rev (sort_key key (rev xs))"

definition detect_patterns ::
    "fetch \<Rightarrow> fetch \<Rightarrow> dbscan \<Rightarrow> int \<Rightarrow> int \<Rightarrow> real \<Rightarrow> real \<Rightarrow> error + pattern list" where
  "detect_patterns fetch_deshields fetch_shields dbscan period_days min_cluster_size
       min_amount_zec eps =
     (let min_amount_zat = py_int (fl64 (min_amount_zec * 10 ^ 8))
      in case fetch_deshields period_days min_amount_zat of
           Inl e \<Rightarrow> Inl e
         | Inr deshields \<Rightarrow>
             if int (length deshields) < min_cluster_size then Inr []
             else
              (case cluster_by_amount dbscan deshields eps min_cluster_size of
                 Inl e \<Rightarrow> Inl e
               | Inr clusters \<Rightarrow>
                (case collect_patterns fetch_shields min_cluster_size clusters [] of
                   Inl e \<Rightarrow> Inl e
                 | Inr patterns \<Rightarrow> Inr (py_sort_reverse pattern_score patterns))))"

subsection \<open>The round-number ladder as the specification words it\<close>

text \<open>
  The specification's table for the round-number factor: a denomination
  matches when the amount is at least the denomination and the remainder is
  below 1% of the denomination; the unit denomination matches when the
  remainder modulo 1 is below 0.1% of 1.
\<close>

definition round_score_spec :: "real \<Rightarrow> int \<Rightarrow> int" where
  "round_score_spec amount_zec uniformity_pts =
     (if amount_zec \<ge> 1000 \<and> py_mod amount_zec 1000 < 1000 / 100 then 20
      else if amount_zec \<ge> 500 \<and> py_mod amount_zec 500 < 500 / 100 then 18
      else if amount_zec \<ge> 100 \<and> py_mod amount_zec 100 < 100 / 100 then 15
      else if amount_zec \<ge> 50 \<and> py_mod amount_zec 50 < 50 / 100 then 12
      else if amount_zec \<ge> 10 \<and> py_mod amount_zec 10 < 10 / 100 then 10
      else if py_mod amount_zec 1 < 1 / 1000 then 5
      else if uniformity_pts \<ge> 10 then 8
      else 0)"

text \<open>
  The ladder of the code as a literal table of (denomination, absolute
  tolerance in ZEC, points), and the first match from the top.
\<close>

definition round_ladder :: "(real \<times> real \<times> int) list" where
  "round_ladder =
     [(1000, 0.01, 20), (500, 0.01, 18), (100, 0.01, 15),
      (50, 0.01, 12), (10, 0.01, 10), (1, 0.001, 5)]"

fun first_match :: "real \<Rightarrow> (real \<times> real \<times> int) list \<Rightarrow> int option" where
  "first_match a [] = None"
| "first_match a ((d, tol, pts) # rest) =
     (if a \<ge> d \<and> py_mod a d < tol then Some pts else first_match a rest)"

definition round_score_ladder :: "real \<Rightarrow> int \<Rightarrow> int" where
  "round_score_ladder amount_zec uniformity_pts =
     (case first_match amount_zec round_ladder of
        Some pts \<Rightarrow> pts
      | None \<Rightarrow> if uniformity_pts \<ge> 10 then 8 else 0)"

subsection \<open>Concrete inputs\<close>

text \<open>
  A cluster of transactions of one amount with the given block times, and the
  clusters of the specification's scenarios A (12 times 500 ZEC within two
  hours) and B (8 times 637.5 ZEC within twenty hours).
\<close>

definition scenario_cluster :: "int \<Rightarrow> int list \<Rightarrow> tx list" where
  "scenario_cluster amount ts =
     map (\<lambda>(i, t). \<lparr>txid = ''tx'' @ replicate i CHR ''x'', block_height = 2000000 + int i,
                      block_time = t, amount_zat = amount, pool = ''sapling''\<rparr>)
         (enumerate 0 ts)"

definition scenario_A :: "tx list" where
  "scenario_A = scenario_cluster 50000000000
     [1700000000, 1700000600, 1700001200, 1700001800, 1700002400, 1700003000,
      1700003600, 1700004200, 1700004800, 1700005400, 1700006000, 1700007200]"

definition scenario_B :: "tx list" where
  "scenario_B = scenario_cluster 63750000000
     [1700000000, 1700010000, 1700020000, 1700030000, 1700040000, 1700050000,
      1700060000, 1700072000]"

text \<open>A cluster with the given amounts, one transaction an hour.\<close>

definition mixed_cluster :: "int list \<Rightarrow> tx list" where
  "mixed_cluster amounts =
     map (\<lambda>(i, a). \<lparr>txid = ''mx'' @ replicate i CHR ''y'', block_height = 2100000 + int i,
                      block_time = 1700000000 + 3600 * int i, amount_zat = a,
                      pool = ''orchard''\<rparr>)
         (enumerate 0 amounts)"

text \<open>
  Six transactions in two groups of one amount each (637.5 ZEC, then 500 ZEC).
\<close>

definition two_groups :: "tx list" where
  "two_groups = mixed_cluster
     [63750000000, 63750000000, 63750000000, 50000000000, 50000000000, 50000000000]"

text \<open>Three transactions of amount zero.\<close>

definition zero_batch :: "tx list" where
  "zero_batch = mixed_cluster [0, 0, 0]"

text \<open>Three transactions, two of them with a negative amount.\<close>

definition negative_batch :: "tx list" where
  "negative_batch = mixed_cluster [- 5, - 1, 100000000]"

section \<open>Rounding to float64\<close>

lemma round_even_of_int: "round_even (of_int m) = m"
  by (simp add: round_even_def)

lemma fl64_zero: "fl64 0 = 0"
  by (simp add: fl64_def)

lemma fl64_eval:
  assumes "2 powr of_int e \<le> \<bar>x\<bar>" and "\<bar>x\<bar> < 2 powr (of_int e + 1)"
  shows "fl64 x = 2 powr (of_int e - 52) * of_int (round_even (x / 2 powr (of_int e - 52)))"
proof -
  have pos: "0 < \<bar>x\<bar>"
    using assms(1) by (smt (verit) powr_gt_zero)
  have "of_int e \<le> log 2 \<bar>x\<bar>"
    using assms(1) pos by (simp add: le_log_iff)
  moreover have "log 2 \<bar>x\<bar> < of_int e + 1"
    using assms(2) pos by (simp add: log_less_iff)
  ultimately have "\<lfloor>log 2 \<bar>x\<bar>\<rfloor> = e"
    by (simp add: floor_unique)
  then show ?thesis using pos by (simp add: fl64_def Let_def)
qed

lemma fl64_exact:
  assumes "\<bar>n\<bar> < 2 ^ 53"
  shows "fl64 (of_int n * 2 powr of_int k) = of_int n * 2 powr of_int k"
proof (cases "n = 0")
  case True
  then show ?thesis by (simp add: fl64_def)
next
  case False
  define x :: real where "x = of_int n * 2 powr of_int k"
  define e where "e = \<lfloor>log 2 \<bar>x\<bar>\<rfloor>"
  have n1: "1 \<le> \<bar>real_of_int n\<bar>" using False by linarith
  have n2: "\<bar>real_of_int n\<bar> < 2 powr 53"
    using assms by (simp add: powr_numeral)
  have ax: "\<bar>x\<bar> = \<bar>real_of_int n\<bar> * 2 powr of_int k"
    by (simp add: x_def abs_mult)
  have lg: "log 2 \<bar>x\<bar> = log 2 \<bar>real_of_int n\<bar> + of_int k"
    using n1 False by (simp add: ax log_mult)
  have "0 \<le> log 2 \<bar>real_of_int n\<bar>" using n1 by simp
  moreover have "log 2 \<bar>real_of_int n\<bar> < 53"
    using n1 n2 by (simp add: log_less_iff)
  ultimately have e: "k \<le> e" "e \<le> k + 52"
    unfolding e_def lg by linarith+
  define j where "j = nat (k + 52 - e)"
  have j: "int j = k + 52 - e" using e by (simp add: j_def)
  have "real_of_int k - (real_of_int e - 52) = real_of_int (int j)"
    unfolding j by simp
  then have "2 powr (of_int k - (of_int e - 52)) = (2::real) powr of_int (int j)"
    by (simp only:)
  also have "\<dots> = 2 ^ j"
    by (simp add: powr_realpow)
  finally have p: "2 powr (of_int k - (of_int e - 52)) = (2::real) ^ j" .
  have "x / 2 powr (of_int e - 52) = of_int n * 2 powr (of_int k - (of_int e - 52))"
    by (simp add: x_def powr_diff)
  also have "\<dots> = of_int (n * 2 ^ j)"
    by (simp add: p)
  finally have q: "x / 2 powr (of_int e - 52) = of_int (n * 2 ^ j)" .
  have x0: "x \<noteq> 0" using False by (simp add: x_def)
  have "fl64 x = 2 powr (of_int e - 52) * of_int (round_even (x / 2 powr (of_int e - 52)))"
    using x0 by (simp add: fl64_def Let_def e_def)
  also have "\<dots> = 2 powr (of_int e - 52) * (x / 2 powr (of_int e - 52))"
    by (simp only: q round_even_of_int)
  also have "\<dots> = x" by simp
  finally show ?thesis by (simp add: x_def)
qed

lemma fl64_of_int: "\<bar>n\<bar> < 2 ^ 53 \<Longrightarrow> fl64 (of_int n) = of_int n"
proof -
  assume a: "\<bar>n\<bar> < 2 ^ 53"
  have "fl64 (of_int n * 2 powr of_int 0) = of_int n * 2 powr of_int 0"
    using a by (rule fl64_exact)
  then show ?thesis by simp
qed

lemma two_powr_m1: "(2::real) powr of_int (- 1) = 1 / 2"
proof -
  have "(2::real) powr (- 1) = inverse (2 powr 1)"
    by (rule powr_minus)
  then show ?thesis by simp
qed

lemma fl64_half_int: "\<bar>n\<bar> < 2 ^ 53 \<Longrightarrow> fl64 (of_int n / 2) = of_int n / 2"
proof -
  assume a: "\<bar>n\<bar> < 2 ^ 53"
  have "fl64 (of_int n * 2 powr of_int (- 1)) = of_int n * 2 powr of_int (- 1)"
    using a by (rule fl64_exact)
  then show ?thesis by (simp only: two_powr_m1) simp
qed

lemma fl64_numeral: "\<bar>numeral w :: int\<bar> < 2 ^ 53 \<Longrightarrow> fl64 (numeral w) = numeral w"
  using fl64_of_int[of "numeral w"] by simp

lemma fl64_one: "fl64 1 = 1"
  using fl64_of_int[of 1] by simp

lemma fl64_minus_one: "fl64 (- 1) = - 1"
  using fl64_of_int[of "- 1"] by simp

lemma fl64_half_numeral:
  "\<bar>numeral w :: int\<bar> < 2 ^ 53 \<Longrightarrow> fl64 (numeral w / 2) = numeral w / 2"
  using fl64_half_int[of "numeral w"] by simp

lemma fl64_half: "fl64 (1 / 2) = 1 / 2"
  using fl64_half_int[of 1] by simp

text \<open>
  An amount of 1000.01 ZEC is not a float64: the quotient of 100001000000 by
  \<open>10^8\<close> is rounded down, to 1000.0099999999999909...
\<close>

lemma two_powr_values: "(2::real) powr 9 = 512" "(2::real) powr 10 = 1024"
  "(2::real) powr (- 43) = 1 / 8796093022208"
proof -
  show "(2::real) powr 9 = 512" using powr_numeral[of "2::real" "num.Bit1 (num.Bit0 (num.Bit0 num.One))"] by simp
  show "(2::real) powr 10 = 1024" using powr_realpow[of "2::real" 10] by simp
  have "(2::real) powr (- 43) = inverse (2 powr 43)" by (rule powr_minus)
  also have "(2::real) powr 43 = 2 ^ 43" using powr_realpow[of "2::real" 43] by simp
  finally show "(2::real) powr (- 43) = 1 / 8796093022208" by simp
qed

lemma fl64_1000_01: "fl64 (100001000000 / 10 ^ 8) = 8796180983138222 / 8796093022208"
proof -
  have "fl64 (100001000000 / 10 ^ 8) =
      2 powr (of_int 9 - 52) * of_int (round_even ((100001000000 / 10 ^ 8) / 2 powr (of_int 9 - 52)))"
  proof (rule fl64_eval)
    show "2 powr real_of_int 9 \<le> \<bar>100001000000 / 10 ^ 8 :: real\<bar>"
      by (simp add: two_powr_values)
    show "\<bar>100001000000 / 10 ^ 8 :: real\<bar> < 2 powr (real_of_int 9 + 1)"
      by (simp add: two_powr_values)
  qed
  also have "(2::real) powr (of_int 9 - 52) = 1 / 8796093022208"
    using two_powr_values(3) by simp
  finally show ?thesis
    by (simp add: round_even_def)
qed

lemmas fl64_simps =
  fl64_zero fl64_numeral fl64_one fl64_minus_one fl64_half_numeral fl64_half

section \<open>Properties of the scorer\<close>

lemma size_score_range: "10 \<le> size_score n \<and> size_score n \<le> 30"
  by (simp add: size_score_def)

lemma uniformity_score_range: "0 \<le> uniformity_score cv \<and> uniformity_score cv \<le> 15"
  by (simp add: uniformity_score_def)

lemma round_score_range: "0 \<le> round_score a u \<and> round_score a u \<le> 20"
  by (simp add: round_score_def)

lemma time_score_range: "0 \<le> time_score h \<and> time_score h \<le> 12"
  by (simp add: time_score_def)

lemma match_score_range: "0 \<le> match_score xs m \<and> match_score xs m \<le> 25"
  by (simp add: match_score_def Let_def split: option.split)

text \<open>The scorer returns on every non-empty cluster and raises on the empty one.\<close>

lemma score_cluster_nonempty:
  assumes "cluster \<noteq> []"
  shows "\<exists>r. score_cluster cluster m = Inr r"
proof -
  obtain t ts where "map block_time cluster = t # ts"
    using assms by (cases cluster) auto
  then show ?thesis
    by (simp add: score_cluster_def Let_def)
qed

lemma score_cluster_empty: "score_cluster [] m = Inl ValueError"
  by (simp add: score_cluster_def)

lemma score_cluster_score:
  assumes "score_cluster cluster m = Inr r"
  shows "score r = min (size_score (length cluster)
      + uniformity_score (uniformity_cv (breakdown r))
      + round_score (round_number_amount_zec (breakdown r)) (uniformity_points (breakdown r))
      + time_score (time_clustering_hours (breakdown r))
      + match_score (map amount_zat cluster) m) 100
    \<and> warning_level r = warning_of (score r)"
  using assms
  by (auto simp add: score_cluster_def Let_def split: sum.splits)

subsection \<open>Score bounds and warning level\<close>

text \<open>
  Claim C1. For every (non-empty) cluster and every optional matching shield
  the scorer returns a result whose score lies between 0 and 100, and whose
  warning level is fixed by the score alone: HIGH exactly when the score is
  at least 70, MEDIUM exactly when it is at least 50 and below 70, LOW
  exactly when it is below 50 (so 49 is LOW, 50 and 69 are MEDIUM, 70 is HIGH).
\<close>

theorem score_bounds_and_warning_level:
  assumes "cluster \<noteq> []"
  shows "\<exists>r. score_cluster cluster m = Inr r \<and> 0 \<le> score r \<and> score r \<le> 100
     \<and> (warning_level r = HIGH \<longleftrightarrow> score r \<ge> 70)
     \<and> (warning_level r = MEDIUM \<longleftrightarrow> 50 \<le> score r \<and> score r < 70)
     \<and> (warning_level r = LOW \<longleftrightarrow> score r < 50)"
proof -
  obtain r where r: "score_cluster cluster m = Inr r"
    using score_cluster_nonempty[OF assms] by blast
  note s = score_cluster_score[OF r]
  have "0 \<le> score r" "score r \<le> 100"
    using s size_score_range[of "length cluster"]
      uniformity_score_range[of "uniformity_cv (breakdown r)"]
      round_score_range[of "round_number_amount_zec (breakdown r)" "uniformity_points (breakdown r)"]
      time_score_range[of "time_clustering_hours (breakdown r)"]
      match_score_range[of "map amount_zat cluster" m]
    by linarith+
  moreover have "warning_level r = warning_of (score r)" using s by simp
  ultimately show ?thesis using r by (auto simp: warning_of_def)
qed

theorem score_bounds_and_warning_level_witness:
  "[\<lparr>txid = ''a'', block_height = 1, block_time = 0, amount_zat = 50000000000,
      pool = ''sapling''\<rparr>] \<noteq> []
   \<and> (\<exists>r. score_cluster
        [\<lparr>txid = ''a'', block_height = 1, block_time = 0, amount_zat = 50000000000,
           pool = ''sapling''\<rparr>] None = Inr r
      \<and> 0 \<le> score r \<and> score r \<le> 100
      \<and> (warning_level r = HIGH \<longleftrightarrow> score r \<ge> 70)
      \<and> (warning_level r = MEDIUM \<longleftrightarrow> 50 \<le> score r \<and> score r < 70)
      \<and> (warning_level r = LOW \<longleftrightarrow> score r < 50))"
  using score_bounds_and_warning_level
    [of "[\<lparr>txid = ''a'', block_height = 1, block_time = 0, amount_zat = 50000000000,
           pool = ''sapling''\<rparr>]" None]
  by blast

subsection \<open>The fields of a result, and clusters of one amount\<close>

lemma py_min_Min: "xs \<noteq> [] \<Longrightarrow> py_min xs = Inr (Min (set xs))"
proof (cases xs)
  case (Cons a list)
  then show ?thesis using Min.set_eq_fold[of a list] by simp
qed simp

lemma py_max_Max: "xs \<noteq> [] \<Longrightarrow> py_max xs = Inr (Max (set xs))"
proof (cases xs)
  case (Cons a list)
  then show ?thesis using Max.set_eq_fold[of a list] by simp
qed simp

lemma score_cluster_fields:
  assumes ne: "cluster \<noteq> []" and r: "score_cluster cluster m = Inr r"
  shows "cluster_size_count (breakdown r) = length cluster"
    and "cluster_size_points (breakdown r) = size_score (length cluster)"
    and "uniformity_cv (breakdown r) =
           cv_of (np_std (map amount_zat cluster)) (np_mean (map amount_zat cluster))"
    and "uniformity_points (breakdown r) = uniformity_score (uniformity_cv (breakdown r))"
    and "round_number_amount_zec (breakdown r) =
           fl64 (np_mean (map amount_zat cluster) / 10 ^ 8)"
    and "round_number_points (breakdown r) =
           round_score (round_number_amount_zec (breakdown r)) (uniformity_points (breakdown r))"
    and "round_number_is_round (breakdown r) \<longleftrightarrow> round_number_points (breakdown r) \<ge> 10"
    and "time_clustering_hours (breakdown r) =
           fl64 (real_of_int (Max (block_time ` set cluster) - Min (block_time ` set cluster))
                 / 3600)"
    and "time_clustering_points (breakdown r) = time_score (time_clustering_hours (breakdown r))"
    and "matching_shield_points (breakdown r) = match_score (map amount_zat cluster) m"
    and "score r = min (cluster_size_points (breakdown r) + uniformity_points (breakdown r)
           + round_number_points (breakdown r) + time_clustering_points (breakdown r)
           + matching_shield_points (breakdown r)) 100"
    and "warning_level r = warning_of (score r)"
proof -
  have t: "map block_time cluster \<noteq> []" using ne by simp
  show "cluster_size_count (breakdown r) = length cluster"
    and "cluster_size_points (breakdown r) = size_score (length cluster)"
    and "uniformity_cv (breakdown r) =
           cv_of (np_std (map amount_zat cluster)) (np_mean (map amount_zat cluster))"
    and "uniformity_points (breakdown r) = uniformity_score (uniformity_cv (breakdown r))"
    and "round_number_amount_zec (breakdown r) =
           fl64 (np_mean (map amount_zat cluster) / 10 ^ 8)"
    and "round_number_points (breakdown r) =
           round_score (round_number_amount_zec (breakdown r)) (uniformity_points (breakdown r))"
    and "round_number_is_round (breakdown r) \<longleftrightarrow> round_number_points (breakdown r) \<ge> 10"
    and "time_clustering_hours (breakdown r) =
           fl64 (real_of_int (Max (block_time ` set cluster) - Min (block_time ` set cluster))
                 / 3600)"
    and "time_clustering_points (breakdown r) = time_score (time_clustering_hours (breakdown r))"
    and "matching_shield_points (breakdown r) = match_score (map amount_zat cluster) m"
    and "score r = min (cluster_size_points (breakdown r) + uniformity_points (breakdown r)
           + round_number_points (breakdown r) + time_clustering_points (breakdown r)
           + matching_shield_points (breakdown r)) 100"
    and "warning_level r = warning_of (score r)"
    using r py_min_Min[OF t] py_max_Max[OF t]
    by (auto simp add: score_cluster_def Let_def)
qed

lemma sum_list_const: "\<forall>x\<in>set xs. x = (a::int) \<Longrightarrow> sum_list xs = a * int (length xs)"
  by (induction xs) (simp_all add: algebra_simps)

lemma np_mean_const:
  assumes "xs \<noteq> []" "\<forall>x\<in>set xs. x = a" "\<bar>a\<bar> < 2 ^ 53"
  shows "np_mean xs = real_of_int a"
  using assms by (simp add: np_mean_def sum_list_const fl64_of_int)

lemma np_std_const:
  assumes "xs \<noteq> []" "\<forall>x\<in>set xs. x = a" "\<bar>a\<bar> < 2 ^ 53"
  shows "np_std xs = 0"
proof -
  have m: "np_mean xs = real_of_int a"
    using np_mean_const[OF assms] .
  have "map (\<lambda>x. fl64 ((fl64 (fl64 (real_of_int x) - np_mean xs))\<^sup>2)) xs = map (\<lambda>x. 0) xs"
    using assms(2,3) by (intro map_cong) (auto simp add: m fl64_of_int fl64_zero)
  then have "sum_list (map (\<lambda>x. fl64 ((fl64 (fl64 (real_of_int x) - np_mean xs))\<^sup>2)) xs) = 0"
    by (simp only: sum_list_0)
  then show ?thesis by (simp add: np_std_def Let_def fl64_zero)
qed

lemma round_500: "round_score 500 15 = 18"
  by (simp add: round_score_def py_mod_def)

lemma round_6375: "round_score (63750000000 / 10 ^ 8) 15 = 8"
  by (simp add: round_score_def py_mod_def)


lemma scenario_cluster_basic:
  "length (scenario_cluster a ts) = length ts"
  "map block_time (scenario_cluster a ts) = ts"
  "\<forall>t\<in>set (scenario_cluster a ts). amount_zat t = a"
  "block_time ` set (scenario_cluster a ts) = set ts"
proof -
  show 1: "length (scenario_cluster a ts) = length ts"
    by (simp add: scenario_cluster_def)
  show 3: "map block_time (scenario_cluster a ts) = ts"
    by (simp add: scenario_cluster_def split_def o_def)
  show "\<forall>t\<in>set (scenario_cluster a ts). amount_zat t = a"
    by (auto simp add: scenario_cluster_def)
  show "block_time ` set (scenario_cluster a ts) = set ts"
    using 3 by (metis set_map)
qed

lemma scenario_cluster_amounts:
  "map amount_zat (scenario_cluster a ts) = replicate (length ts) a"
  by (simp add: scenario_cluster_def list_eq_iff_nth_eq nth_enumerate_eq)

subsection \<open>Scenario B\<close>

text \<open>
  Claim C4. A cluster of exactly 8 transactions of 637.5 ZEC (63750000000
  zatoshi) each, whose block times span 20 hours (72000 seconds), scored
  without a matching shield, gets 22 points for the cluster size, 15 for
  uniformity, 8 for the round-number factor (the bonus for a non-round
  identical amount), 10 for time clustering and 0 for the matching shield:
  score 55, warning level MEDIUM.
\<close>

theorem scenario_B_score:
  assumes "map amount_zat cluster = replicate 8 63750000000"
    and "Max (block_time ` set cluster) - Min (block_time ` set cluster) = 72000"
  shows "\<exists>r. score_cluster cluster None = Inr r
    \<and> cluster_size_points (breakdown r) = 22
    \<and> uniformity_points (breakdown r) = 15
    \<and> round_number_points (breakdown r) = 8
    \<and> time_clustering_points (breakdown r) = 10
    \<and> matching_shield_points (breakdown r) = 0
    \<and> score r = 55 \<and> warning_level r = MEDIUM"
proof -
  have len: "length cluster = 8"
    using arg_cong[OF assms(1), of length] by simp
  have ne: "cluster \<noteq> []" using len by auto
  obtain r where r: "score_cluster cluster None = Inr r"
    using score_cluster_nonempty[OF ne] by blast
  note f = score_cluster_fields[OF ne r]
  have am: "map amount_zat cluster \<noteq> []" "\<forall>x\<in>set (map amount_zat cluster). x = 63750000000"
    using ne assms(1) by auto
  have mean: "np_mean (map amount_zat cluster) = 63750000000"
    using np_mean_const[OF am] by simp
  have std: "np_std (map amount_zat cluster) = 0"
    using np_std_const[OF am] by simp
  have sz: "cluster_size_points (breakdown r) = 22"
    using f(2) len by (simp add: size_score_def)
  have cv: "uniformity_cv (breakdown r) = 0"
    using f(3) mean std by (simp add: cv_of_def fl64_simps)
  have un: "uniformity_points (breakdown r) = 15"
    using f(4) cv by (simp add: uniformity_score_def)
  have zec: "round_number_amount_zec (breakdown r) = 63750000000 / 10 ^ 8"
    using f(5) mean by (simp add: fl64_simps)
  have rd: "round_number_points (breakdown r) = 8"
    using f(6) un zec round_6375 by simp
  have hrs: "time_clustering_hours (breakdown r) = 20"
    using f(8) assms(2) by (simp add: fl64_simps)
  have tm: "time_clustering_points (breakdown r) = 10"
    using f(9) hrs by (simp add: time_score_def)
  have ms: "matching_shield_points (breakdown r) = 0"
    using f(10) by (simp add: match_score_def)
  have sc: "score r = 55"
    using f(11) sz un rd tm ms by simp
  have "warning_level r = MEDIUM"
    using f(12) sc by (simp add: warning_of_def)
  then show ?thesis using r sz un rd tm ms sc by blast
qed

theorem scenario_B_score_witness:
  "map amount_zat scenario_B = replicate 8 63750000000
   \<and> Max (block_time ` set scenario_B) - Min (block_time ` set scenario_B) = 72000
   \<and> (\<exists>r. score_cluster scenario_B None = Inr r
    \<and> cluster_size_points (breakdown r) = 22
    \<and> uniformity_points (breakdown r) = 15
    \<and> round_number_points (breakdown r) = 8
    \<and> time_clustering_points (breakdown r) = 10
    \<and> matching_shield_points (breakdown r) = 0
    \<and> score r = 55 \<and> warning_level r = MEDIUM)"
proof -
  have 1: "map amount_zat scenario_B = replicate 8 63750000000"
    by (simp add: scenario_B_def scenario_cluster_amounts eval_nat_numeral)
  have 2: "Max (block_time ` set scenario_B) - Min (block_time ` set scenario_B) = 72000"
    by (simp add: scenario_B_def scenario_cluster_basic)
  show ?thesis using 1 2 scenario_B_score[OF 1 2] by blast
qed


subsection \<open>Scenario A\<close>

text \<open>
  Claim C3, as the code has it. A cluster of exactly 12 transactions of 500 ZEC
  (50000000000 zatoshi) each, whose block times span 2 hours (7200 seconds),
  scored without a matching shield, gets 30 points for the cluster size, 15
  for uniformity, 18 for the round-number factor (500 ZEC is below 1000, so
  the first rung of the ladder that matches is the one of 500), 12 for time
  clustering and 0 for the matching shield: score 75, warning level HIGH.
\<close>

theorem scenario_A_score:
  assumes "map amount_zat cluster = replicate 12 50000000000"
    and "Max (block_time ` set cluster) - Min (block_time ` set cluster) = 7200"
  shows "\<exists>r. score_cluster cluster None = Inr r
    \<and> cluster_size_points (breakdown r) = 30
    \<and> uniformity_points (breakdown r) = 15
    \<and> round_number_points (breakdown r) = 18
    \<and> time_clustering_points (breakdown r) = 12
    \<and> matching_shield_points (breakdown r) = 0
    \<and> score r = 75 \<and> warning_level r = HIGH"
proof -
  have len: "length cluster = 12"
    using arg_cong[OF assms(1), of length] by simp
  have ne: "cluster \<noteq> []" using len by auto
  obtain r where r: "score_cluster cluster None = Inr r"
    using score_cluster_nonempty[OF ne] by blast
  note f = score_cluster_fields[OF ne r]
  have am: "map amount_zat cluster \<noteq> []" "\<forall>x\<in>set (map amount_zat cluster). x = 50000000000"
    using ne assms(1) by auto
  have mean: "np_mean (map amount_zat cluster) = 50000000000"
    using np_mean_const[OF am] by simp
  have std: "np_std (map amount_zat cluster) = 0"
    using np_std_const[OF am] by simp
  have sz: "cluster_size_points (breakdown r) = 30"
    using f(2) len by (simp add: size_score_def)
  have cv: "uniformity_cv (breakdown r) = 0"
    using f(3) mean std by (simp add: cv_of_def fl64_simps)
  have un: "uniformity_points (breakdown r) = 15"
    using f(4) cv by (simp add: uniformity_score_def)
  have zec: "round_number_amount_zec (breakdown r) = 500"
    using f(5) mean by (simp add: fl64_simps)
  have rd: "round_number_points (breakdown r) = 18"
    using f(6) un zec round_500 by simp
  have hrs: "time_clustering_hours (breakdown r) = 2"
    using f(8) assms(2) by (simp add: fl64_simps)
  have tm: "time_clustering_points (breakdown r) = 12"
    using f(9) hrs by (simp add: time_score_def)
  have ms: "matching_shield_points (breakdown r) = 0"
    using f(10) by (simp add: match_score_def)
  have sc: "score r = 75"
    using f(11) sz un rd tm ms by simp
  have "warning_level r = HIGH"
    using f(12) sc by (simp add: warning_of_def)
  then show ?thesis using r sz un rd tm ms sc by blast
qed

theorem scenario_A_score_witness:
  "map amount_zat scenario_A = replicate 12 50000000000
   \<and> Max (block_time ` set scenario_A) - Min (block_time ` set scenario_A) = 7200
   \<and> (\<exists>r. score_cluster scenario_A None = Inr r
    \<and> cluster_size_points (breakdown r) = 30
    \<and> uniformity_points (breakdown r) = 15
    \<and> round_number_points (breakdown r) = 18
    \<and> time_clustering_points (breakdown r) = 12
    \<and> matching_shield_points (breakdown r) = 0
    \<and> score r = 75 \<and> warning_level r = HIGH)"
proof -
  have 1: "map amount_zat scenario_A = replicate 12 50000000000"
    by (simp add: scenario_A_def scenario_cluster_amounts eval_nat_numeral)
  have 2: "Max (block_time ` set scenario_A) - Min (block_time ` set scenario_A) = 7200"
    by (simp add: scenario_A_def scenario_cluster_basic)
  show ?thesis using 1 2 scenario_A_score[OF 1 2] by blast
qed

lemma scenario_A_times: "map block_time scenario_A = 
     [1700000000, 1700000600, 1700001200, 1700001800, 1700002400, 1700003000,
      1700003600, 1700004200, 1700004800, 1700005400, 1700006000, 1700007200]"
  by (simp add: scenario_A_def scenario_cluster_basic)

text \<open>
  Claim C3 as stated (20 points for the round-number factor, score 77) fails
  on the cluster \<open>scenario_A\<close>: the scorer returns 18 round-number points and
  the score 75.
\<close>

theorem scenario_A_counterexample:
  "score_cluster scenario_A None =
     Inr \<lparr> score = 75, warning_level = HIGH,
           breakdown = \<lparr>
             cluster_size_count = 12, cluster_size_points = 30,
             uniformity_cv = 0, uniformity_points = 15,
             round_number_amount_zec = 500, round_number_is_round = True,
             round_number_points = 18,
             time_clustering_hours = 2, time_clustering_points = 12,
             matching_shield_found = False, matching_shield_txid = None,
             matching_shield_points = 0 \<rparr>,
           stats = \<lparr> avg_amount_zec = 500, amount_std_zec = 0, time_span_hours = 2 \<rparr> \<rparr>"
proof -
  have len: "length scenario_A = 12"
    by (simp add: scenario_A_def scenario_cluster_basic)
  have am: "map amount_zat scenario_A \<noteq> []"
      "\<forall>x\<in>set (map amount_zat scenario_A). x = 50000000000"
    using len scenario_cluster_basic(3)[of 50000000000] by (auto simp: scenario_A_def)
  have mean: "np_mean (map amount_zat scenario_A) = 50000000000"
    using np_mean_const[OF am] by simp
  have std: "np_std (map amount_zat scenario_A) = 0"
    using np_std_const[OF am] by simp
  have mn: "py_min (map block_time scenario_A) = Inr 1700000000"
    by (simp add: scenario_A_times)
  have mx: "py_max (map block_time scenario_A) = Inr 1700007200"
    by (simp add: scenario_A_times)
  show ?thesis
    unfolding score_cluster_def Let_def mean std mn mx len
    by (simp add: size_score_def cv_of_def uniformity_score_def round_500 time_score_def
        match_score_def warning_of_def fl64_simps)
qed


subsection \<open>Clusters of mixed amounts\<close>

lemma mixed_cluster_amounts: "map amount_zat (mixed_cluster as) = as"
  by (simp add: mixed_cluster_def list_eq_iff_nth_eq nth_enumerate_eq)

lemma mixed_cluster_length: "length (mixed_cluster as) = length as"
  by (simp add: mixed_cluster_def)

subsection \<open>The round-number factor\<close>

text \<open>
  Claim C2, as the code has it. In the round-number factor of the scorer the
  average amount in ZEC is the float64 quotient of the mean amount by 10^8,
  and it is tried against the ladder 1000, 500, 100, 50, 10, 1 from the top;
  a denomination \<open>d\<close> of 1000, 500, 100, 50 or 10 matches if and only if the
  amount is at least \<open>d\<close> and its remainder modulo \<open>d\<close> is below 0.01 ZEC (an
  absolute tolerance, the same for every rung), the unit denomination matches
  if and only if the amount is at least 1 and its remainder modulo 1 is below
  0.001; the first match awards 20, 18, 15, 12, 10, 5 points respectively,
  and without a match the factor is 8 when the uniformity factor scored at
  least 10 points, else 0. This is \<open>round_score_ladder\<close>, the first match over
  the literal table \<open>round_ladder\<close>.
\<close>

theorem round_number_factor:
  assumes "score_cluster cluster m = Inr r"
  shows "round_number_amount_zec (breakdown r)
           = fl64 (np_mean (map amount_zat cluster) / 10 ^ 8)
     \<and> round_number_points (breakdown r) =
         round_score_ladder (round_number_amount_zec (breakdown r))
           (uniformity_points (breakdown r))"
proof -
  have ne: "cluster \<noteq> []"
    using assms score_cluster_empty by auto
  note f = score_cluster_fields[OF ne assms]
  have "round_score a u = round_score_ladder a u" for a u
    by (simp add: round_score_def round_score_ladder_def round_ladder_def)
  then have "round_number_points (breakdown r) =
         round_score_ladder (round_number_amount_zec (breakdown r))
           (uniformity_points (breakdown r))"
    using f(6) by simp
  with f(5) show ?thesis by (rule conjI)
qed

text \<open>
  Three transactions of 1000.01 ZEC (100001000000 zatoshi): the mean is exact,
  its quotient by 10^8 is rounded to the float64 just below 1000.01, the
  remainder modulo 1000 is therefore below 0.01, and the rung of 1000 awards
  20 points.
\<close>

lemma round_ladder_1000_01:
  "round_score_ladder (8796180983138222 / 8796093022208) u = 20"
  by (simp add: round_score_ladder_def round_ladder_def py_mod_def)

theorem round_number_factor_witness:
  "\<exists>r. score_cluster (mixed_cluster [100001000000, 100001000000, 100001000000]) None = Inr r
     \<and> round_number_amount_zec (breakdown r) = 8796180983138222 / 8796093022208
     \<and> round_number_points (breakdown r) =
         round_score_ladder (round_number_amount_zec (breakdown r))
           (uniformity_points (breakdown r))
     \<and> round_number_points (breakdown r) = 20"
proof -
  let ?c = "mixed_cluster [100001000000, 100001000000, 100001000000]"
  have ne: "?c \<noteq> []"
    by (simp add: mixed_cluster_def)
  obtain r where r: "score_cluster ?c None = Inr r"
    using score_cluster_nonempty[OF ne] by blast
  have "np_mean (map amount_zat ?c) = real_of_int 100001000000"
    by (rule np_mean_const) (simp_all add: mixed_cluster_amounts)
  then have "fl64 (np_mean (map amount_zat ?c) / 10 ^ 8) = 8796180983138222 / 8796093022208"
    using fl64_1000_01 by simp
  then have z: "round_number_amount_zec (breakdown r) = 8796180983138222 / 8796093022208"
    and p: "round_number_points (breakdown r) =
         round_score_ladder (round_number_amount_zec (breakdown r))
           (uniformity_points (breakdown r))"
    using round_number_factor[OF r] by simp_all
  have "round_number_points (breakdown r) = 20"
    using p by (simp only: z round_ladder_1000_01)
  with r z p show ?thesis by blast
qed

text \<open>
  Claim C2 as stated (a remainder tolerance of 1% of the denomination) fails
  at an average amount of 1005 ZEC: the remainder modulo 1000 is 5, which is
  below 1% of 1000, so the specification's table awards 20 points; the code
  compares the remainder with 0.01, no rung from 1000 down to 10 matches, and
  the unit rung awards 5.
\<close>

theorem round_score_spec_counterexample:
  "round_score_spec 1005 15 = 20 \<and> round_score 1005 15 = 5"
  by (simp add: round_score_spec_def round_score_def py_mod_def)

subsection \<open>Monotonicity of the size and uniformity factors\<close>

lemma size_score_mono: "n \<le> k \<Longrightarrow> size_score n \<le> size_score k"
  by (simp add: size_score_def)

lemma uniformity_score_antimono:
  "cv1 \<le> cv2 \<Longrightarrow> uniformity_score cv2 \<le> uniformity_score cv1"
  by (simp add: uniformity_score_def)

text \<open>
  Claim C6. The cluster-size points of a result depend on the number of
  transactions only and never decrease when that number grows (so they do
  not decrease along 3, 5, 8, 12); the uniformity points depend on the
  coefficient of variation only and never decrease when it shrinks. Stated
  for the results of any two runs of the scorer.
\<close>

theorem factor_monotonicity:
  assumes "score_cluster c1 m1 = Inr r1" and "score_cluster c2 m2 = Inr r2"
  shows "(length c1 \<le> length c2 \<longrightarrow>
            cluster_size_points (breakdown r1) \<le> cluster_size_points (breakdown r2))
       \<and> (uniformity_cv (breakdown r1) \<le> uniformity_cv (breakdown r2) \<longrightarrow>
            uniformity_points (breakdown r2) \<le> uniformity_points (breakdown r1))"
proof -
  have ne: "c1 \<noteq> []" "c2 \<noteq> []"
    using assms score_cluster_empty by auto
  note f1 = score_cluster_fields[OF ne(1) assms(1)]
  note f2 = score_cluster_fields[OF ne(2) assms(2)]
  show ?thesis
    using f1(2) f2(2) f1(4) f2(4) size_score_mono uniformity_score_antimono by simp
qed

lemma np_mean_13: "np_mean [1, 3, 1, 3, 1, 3, 1, 3, 1, 3, 1, 3] = 2"
  by (simp add: np_mean_def fl64_simps)

lemma np_std_13: "np_std [1, 3, 1, 3, 1, 3, 1, 3, 1, 3, 1, 3] = 1"
  by (simp add: np_std_def np_mean_13 fl64_simps)

theorem factor_monotonicity_witness:
  "\<exists>r1 r2. score_cluster (mixed_cluster [2, 2, 2]) None = Inr r1
     \<and> score_cluster (mixed_cluster [1, 3, 1, 3, 1, 3, 1, 3, 1, 3, 1, 3]) None = Inr r2
     \<and> length (mixed_cluster [2, 2, 2])
          \<le> length (mixed_cluster [1, 3, 1, 3, 1, 3, 1, 3, 1, 3, 1, 3])
     \<and> cluster_size_points (breakdown r1) \<le> cluster_size_points (breakdown r2)
     \<and> uniformity_cv (breakdown r1) = 0 \<and> uniformity_cv (breakdown r2) = 1 / 2
     \<and> uniformity_cv (breakdown r1) \<le> uniformity_cv (breakdown r2)
     \<and> uniformity_points (breakdown r2) \<le> uniformity_points (breakdown r1)"
proof -
  let ?c1 = "mixed_cluster [2, 2, 2]"
  let ?c2 = "mixed_cluster [1, 3, 1, 3, 1, 3, 1, 3, 1, 3, 1, 3]"
  have ne: "?c1 \<noteq> []" "?c2 \<noteq> []"
    by (simp_all add: mixed_cluster_def)
  obtain r1 where r1: "score_cluster ?c1 None = Inr r1"
    using score_cluster_nonempty[OF ne(1)] by blast
  obtain r2 where r2: "score_cluster ?c2 None = Inr r2"
    using score_cluster_nonempty[OF ne(2)] by blast
  have len: "length ?c1 \<le> length ?c2"
    by (simp add: mixed_cluster_length)
  have "np_mean [2, 2, 2] = 2" "np_std [2, 2, 2] = 0"
    by (simp_all add: np_mean_def np_std_def fl64_simps)
  then have cv1: "uniformity_cv (breakdown r1) = 0"
    using score_cluster_fields(3)[OF ne(1) r1]
    by (simp add: mixed_cluster_amounts cv_of_def fl64_simps)
  have cv2: "uniformity_cv (breakdown r2) = 1 / 2"
    using score_cluster_fields(3)[OF ne(2) r2] np_mean_13 np_std_13
    by (simp add: mixed_cluster_amounts cv_of_def fl64_simps)
  have cv: "uniformity_cv (breakdown r1) \<le> uniformity_cv (breakdown r2)"
    using cv1 cv2 by simp
  show ?thesis
    using r1 r2 len cv1 cv2 cv factor_monotonicity[OF r1 r2] by blast
qed

subsection \<open>Fewer transactions than \<open>min_samples\<close>\<close>

text \<open>
  Claim C7. When the input holds fewer than \<open>min_samples\<close> transactions the
  clusterer returns the empty dict, whatever DBSCAN would do.
\<close>

theorem too_few_transactions:
  assumes "int (length deshields) < min_samples"
  shows "cluster_by_amount dbscan deshields eps min_samples = Inr []"
  using assms by (simp add: cluster_by_amount_def)

theorem too_few_transactions_witness:
  "int (length (mixed_cluster [100000000, 100000000])) < 3
   \<and> (\<forall>dbscan eps. cluster_by_amount dbscan (mixed_cluster [100000000, 100000000]) eps 3 = Inr [])"
proof -
  have 1: "int (length (mixed_cluster [100000000, 100000000])) < 3"
    by (simp add: mixed_cluster_length)
  show ?thesis using 1 too_few_transactions[OF 1] by blast
qed

subsection \<open>A cluster with mean amount zero\<close>

text \<open>
  Claim C10. For a (non-empty) cluster whose mean amount is zero the scorer
  returns a result, its coefficient of variation is 0 (the division by the
  mean is not made) and the uniformity factor is at its maximum, 15 points.
\<close>

theorem zero_mean_uniformity:
  assumes "cluster \<noteq> []" and "np_mean (map amount_zat cluster) = 0"
  shows "\<exists>r. score_cluster cluster m = Inr r \<and> uniformity_cv (breakdown r) = 0
           \<and> uniformity_points (breakdown r) = 15"
proof -
  obtain r where r: "score_cluster cluster m = Inr r"
    using score_cluster_nonempty[OF assms(1)] by blast
  note f = score_cluster_fields[OF assms(1) r]
  have cv: "uniformity_cv (breakdown r) = 0"
    using f(3) assms(2) by (simp add: cv_of_def)
  then have "uniformity_points (breakdown r) = 15"
    using f(4) by (simp add: uniformity_score_def)
  with r cv show ?thesis by blast
qed

theorem zero_mean_uniformity_witness:
  "mixed_cluster [0, 0, 0] \<noteq> []
   \<and> np_mean (map amount_zat (mixed_cluster [0, 0, 0])) = 0
   \<and> (\<exists>r. score_cluster (mixed_cluster [0, 0, 0]) None = Inr r
         \<and> uniformity_cv (breakdown r) = 0 \<and> uniformity_points (breakdown r) = 15)"
proof -
  have 1: "mixed_cluster [0, 0, 0] \<noteq> []"
    by (simp add: mixed_cluster_def)
  have 2: "np_mean (map amount_zat (mixed_cluster [0, 0, 0])) = 0"
    by (simp add: mixed_cluster_amounts np_mean_def fl64_simps)
  show ?thesis using 1 2 zero_mean_uniformity[OF 1 2] by blast
qed

subsection \<open>Order independence of the pattern hash\<close>

text \<open>
  Claim C5. The pattern hash of a list of transaction ids and the pattern
  hash of any permutation of it (a list with the same multiset of elements)
  are equal, whatever the digest function: both are the digest of the same
  sorted, comma-joined string.
\<close>

theorem pattern_hash_permutation:
  assumes "mset ys = mset xs"
  shows "generate_pattern_hash sha256_hexdigest ys = generate_pattern_hash sha256_hexdigest xs"
proof -
  have "sort ys = sort xs"
    using assms by (simp add: properties_for_sort)
  then show ?thesis by (simp add: generate_pattern_hash_def)
qed

theorem pattern_hash_permutation_witness:
  "mset [''b1'', ''a2'', ''a1''] = mset [''a1'', ''b1'', ''a2''] \<and>
   (\<forall>h. generate_pattern_hash h [''b1'', ''a2'', ''a1'']
        = generate_pattern_hash h [''a1'', ''b1'', ''a2''])"
proof -
  have m: "mset [''b1'', ''a2'', ''a1''] = mset [''a1'', ''b1'', ''a2'']" by simp
  show ?thesis using m pattern_hash_permutation[OF m] by blast
qed

section \<open>Properties of the detection run\<close>

subsection \<open>The sort, the loop and the assembler\<close>

lemma py_sort_reverse_set: "set (py_sort_reverse f xs) = set xs"
  by (simp add: py_sort_reverse_def)

lemma py_sort_reverse_descending:
  "sorted_wrt (\<lambda>p q. f q \<le> f p) (py_sort_reverse f xs)"
proof -
  have "sorted (map f (sort_key f (rev xs)))" by simp
  then have "sorted_wrt (\<lambda>p q. f p \<le> f q) (sort_key f (rev xs))"
    by (simp add: sorted_map)
  then show ?thesis
    by (simp add: py_sort_reverse_def sorted_wrt_rev)
qed

lemma py_sort_reverse_stable:
  "filter (\<lambda>y. f y = k) (py_sort_reverse f xs) = filter (\<lambda>y. f y = k) xs"
proof -
  have "filter (\<lambda>y. f y = k) (py_sort_reverse f xs)
      = rev (filter (\<lambda>y. f y = k) (sort_key f (rev xs)))"
    by (simp add: py_sort_reverse_def rev_filter)
  also have "\<dots> = rev (filter (\<lambda>y. f y = k) (rev xs))"
    by (simp only: sort_key_stable)
  also have "\<dots> = filter (\<lambda>y. f y = k) xs"
    by (simp add: rev_filter)
  finally show ?thesis .
qed

lemma build_pattern_score:
  "build_pattern cluster sr m = Inr p \<Longrightarrow> pattern_score p = score sr \<and> txids p = map txid cluster"
  by (auto simp add: build_pattern_def Let_def split: if_splits sum.splits)

lemma process_cluster_score:
  assumes "process_cluster fs mcs cluster = Inr (Some p)"
  shows "35 \<le> pattern_score p"
  using assms
  by (auto simp add: process_cluster_def Let_def map_sum_def
      split: if_splits sum.splits dest!: build_pattern_score)

lemma collect_patterns_order:
  "collect_patterns fs mcs cls acc = Inr patterns \<Longrightarrow>
   patterns = acc @ concat (map (\<lambda>(label, cluster).
       case process_cluster fs mcs cluster of Inr (Some p) \<Rightarrow> [p] | _ \<Rightarrow> []) cls)"
proof (induction fs mcs cls acc rule: collect_patterns.induct)
  case (1 fs mcs acc)
  then show ?case by simp
next
  case (2 fs mcs label cluster rest acc)
  show ?case
  proof (cases "process_cluster fs mcs cluster")
    case (Inl e)
    with 2(3) show ?thesis by simp
  next
    case (Inr res)
    show ?thesis
    proof (cases res)
      case None
      with Inr 2(1)[OF Inr None] 2(3) show ?thesis by simp
    next
      case (Some p)
      with Inr 2(2)[OF Inr Some] 2(3) show ?thesis by simp
    qed
  qed
qed

lemma collect_patterns_scores:
  assumes "collect_patterns fs mcs cls [] = Inr patterns"
  shows "\<forall>p\<in>set patterns. 35 \<le> pattern_score p"
proof -
  have "patterns = concat (map (\<lambda>(label, cluster).
       case process_cluster fs mcs cluster of Inr (Some p) \<Rightarrow> [p] | _ \<Rightarrow> []) cls)"
    using collect_patterns_order[OF assms] by simp
  then show ?thesis
    by (auto split: sum.splits option.splits dest: process_cluster_score[OF sym])
qed

subsection \<open>Threshold and ranking of the returned patterns\<close>

text \<open>
  Claim C8. When a detection run returns a list of patterns, every pattern in
  it has a score of at least 35, the list is in descending order of score,
  and the sort is stable: for every score, the returned patterns of that
  score are, in the same order, those of the list the loop collected, which
  holds the patterns of the kept clusters in the iteration order of the
  clusters dict (the order in which the cluster labels first appear).
\<close>

theorem detect_patterns_filtered_and_ranked:
  assumes "detect_patterns fetch_deshields fetch_shields dbscan period_days min_cluster_size
             min_amount_zec eps = Inr ps"
  shows "(\<forall>p\<in>set ps. 35 \<le> pattern_score p)
     \<and> sorted_wrt (\<lambda>p q. pattern_score q \<le> pattern_score p) ps
     \<and> (\<exists>deshields clusters patterns.
           fetch_deshields period_days (py_int (fl64 (min_amount_zec * 10 ^ 8))) = Inr deshields
         \<and> cluster_by_amount dbscan deshields eps min_cluster_size = Inr clusters
         \<and> collect_patterns fetch_shields min_cluster_size clusters [] = Inr patterns
         \<and> patterns = concat (map (\<lambda>(label, cluster).
               case process_cluster fetch_shields min_cluster_size cluster of
                 Inr (Some p) \<Rightarrow> [p] | _ \<Rightarrow> []) clusters)
         \<and> (\<forall>k. filter (\<lambda>p. pattern_score p = k) ps
                = filter (\<lambda>p. pattern_score p = k) patterns))"
proof -
  obtain deshields where d: "fetch_deshields period_days (py_int (fl64 (min_amount_zec * 10 ^ 8))) = Inr deshields"
    using assms by (auto simp add: detect_patterns_def Let_def split: sum.splits)
  have "\<exists>clusters patterns.
      cluster_by_amount dbscan deshields eps min_cluster_size = Inr clusters
    \<and> collect_patterns fetch_shields min_cluster_size clusters [] = Inr patterns
    \<and> ps = py_sort_reverse pattern_score patterns"
  proof (cases "int (length deshields) < min_cluster_size")
    case True
    then have "ps = []" using assms d by (simp add: detect_patterns_def Let_def)
    moreover have "cluster_by_amount dbscan deshields eps min_cluster_size = Inr []"
      using True by (simp add: cluster_by_amount_def)
    ultimately show ?thesis by (simp add: py_sort_reverse_def)
  next
    case False
    then show ?thesis using assms d
      by (auto simp add: detect_patterns_def Let_def split: sum.splits)
  qed
  then obtain clusters patterns where
    c: "cluster_by_amount dbscan deshields eps min_cluster_size = Inr clusters"
    and p: "collect_patterns fetch_shields min_cluster_size clusters [] = Inr patterns"
    and s: "ps = py_sort_reverse pattern_score patterns"
    by blast
  have 1: "\<forall>p\<in>set ps. 35 \<le> pattern_score p"
    using collect_patterns_scores[OF p] s by (simp add: py_sort_reverse_set)
  have 2: "sorted_wrt (\<lambda>p q. pattern_score q \<le> pattern_score p) ps"
    unfolding s by (rule py_sort_reverse_descending)
  have 3: "\<forall>k. filter (\<lambda>p. pattern_score p = k) ps = filter (\<lambda>p. pattern_score p = k) patterns"
    unfolding s by (simp add: py_sort_reverse_stable)
  have 4: "patterns = concat (map (\<lambda>(label, cluster).
               case process_cluster fetch_shields min_cluster_size cluster of
                 Inr (Some p) \<Rightarrow> [p] | _ \<Rightarrow> []) clusters)"
    using collect_patterns_order[OF p] by simp
  show ?thesis using 1 2 3 4 d c p by blast
qed

text \<open>
  A run on \<open>two_groups\<close> with the labels 0, 0, 0, 1, 1, 1 and no matching
  shield: the clusters score 45 and 55 in discovery order and the run returns
  them as 55, 45.
\<close>

lemma two_groups_length: "length two_groups = 6"
  by (simp add: two_groups_def mixed_cluster_length)

lemma two_groups_clusters: "cluster_by_amount (dbscan_labels [0, 0, 0, 1, 1, 1]) two_groups (1 / 10000) 3
   = Inr [(0, take 3 two_groups), (1, drop 3 two_groups)]"
  by (simp add: cluster_by_amount_def two_groups_length dbscan_labels_def dict_append_def
        take_Suc_conv_app_nth two_groups_def mixed_cluster_def eval_nat_numeral)

lemma first_group_amounts: "map amount_zat (take 3 two_groups) = replicate 3 63750000000"
  by (simp add: two_groups_def take_map[symmetric] mixed_cluster_amounts eval_nat_numeral)

lemma second_group_amounts: "map amount_zat (drop 3 two_groups) = replicate 3 50000000000"
  by (simp add: two_groups_def drop_map[symmetric] mixed_cluster_amounts eval_nat_numeral)

lemma first_group_times:
  "map block_time (take 3 two_groups) = [1700000000, 1700003600, 1700007200]"
  by (simp add: two_groups_def mixed_cluster_def eval_nat_numeral)

lemma second_group_times:
  "map block_time (drop 3 two_groups) = [1700010800, 1700014400, 1700018000]"
  by (simp add: two_groups_def mixed_cluster_def eval_nat_numeral)


lemma build_pattern_nonempty:
  assumes "cluster \<noteq> []"
  shows "\<exists>p. build_pattern cluster sr m = Inr p"
proof -
  obtain t ts where "map block_time cluster = t # ts"
    using assms by (cases cluster) auto
  then show ?thesis using assms
    by (simp add: build_pattern_def Let_def)
qed

lemma score_three_of_one_amount:
  assumes am: "map amount_zat cluster = replicate 3 a"
    and ts: "map block_time cluster = [t, t + 3600, t + 7200]"
    and a: "\<bar>a\<bar> < 2 ^ 53"
  shows "\<exists>r. score_cluster cluster None = Inr r
     \<and> score r = 37 + round_score (fl64 (real_of_int a / 10 ^ 8)) 15"
proof -
  have len: "length cluster = 3"
    using arg_cong[OF am, of length] by simp
  have ne: "cluster \<noteq> []" using len by auto
  obtain r where r: "score_cluster cluster None = Inr r"
    using score_cluster_nonempty[OF ne] by blast
  note f = score_cluster_fields[OF ne r]
  have amc: "map amount_zat cluster \<noteq> []" "\<forall>x\<in>set (map amount_zat cluster). x = a"
    using ne am by auto
  have mean: "np_mean (map amount_zat cluster) = real_of_int a"
    using np_mean_const[OF amc a] .
  have std: "np_std (map amount_zat cluster) = 0"
    using np_std_const[OF amc a] .
  have sz: "cluster_size_points (breakdown r) = 10"
    using f(2) len by (simp add: size_score_def)
  have cv: "uniformity_cv (breakdown r) = 0"
    using f(3) mean std by (simp add: cv_of_def fl64_simps)
  have un: "uniformity_points (breakdown r) = 15"
    using f(4) cv by (simp add: uniformity_score_def)
  have zec: "round_number_amount_zec (breakdown r) = fl64 (real_of_int a / 10 ^ 8)"
    using f(5) by (simp only: mean)
  have rd: "round_number_points (breakdown r) = round_score (fl64 (real_of_int a / 10 ^ 8)) 15"
    using f(6) by (simp only: zec un)
  have "block_time ` set cluster = {t, t + 3600, t + 7200}"
    using arg_cong[OF ts, of set] by simp
  then have "Max (block_time ` set cluster) - Min (block_time ` set cluster) = 7200"
    by simp
  then have hrs: "time_clustering_hours (breakdown r) = 2"
    using f(8) by (simp add: fl64_simps)
  have tm: "time_clustering_points (breakdown r) = 12"
    using f(9) hrs by (simp add: time_score_def)
  have ms: "matching_shield_points (breakdown r) = 0"
    using f(10) by (simp add: match_score_def)
  have "score r = 37 + round_score (fl64 (real_of_int a / 10 ^ 8)) 15"
    using f(11) sz un rd tm ms round_score_range[of "fl64 (real_of_int a / 10 ^ 8)" 15] by simp
  then show ?thesis using r by blast
qed

lemma process_three_of_one_amount:
  assumes am: "map amount_zat cluster = replicate 3 a"
    and ts: "map block_time cluster = [t, t + 3600, t + 7200]"
    and a: "\<bar>a\<bar> < 2 ^ 53"
  shows "\<exists>p. process_cluster (query_result []) 3 cluster = Inr (Some p)
     \<and> pattern_score p = 37 + round_score (fl64 (real_of_int a / 10 ^ 8)) 15"
proof -
  obtain r where r: "score_cluster cluster None = Inr r"
    and sc: "score r = 37 + round_score (fl64 (real_of_int a / 10 ^ 8)) 15"
    using score_three_of_one_amount[OF assms] by blast
  have len: "length cluster = 3"
    using arg_cong[OF am, of length] by simp
  have ne: "cluster \<noteq> []" using len by auto
  obtain p where p: "build_pattern cluster r None = Inr p"
    using build_pattern_nonempty[OF ne] by blast
  have ps: "pattern_score p = score r"
    using build_pattern_score[OF p] by simp
  have "\<not> score r < 35"
    using sc round_score_range[of "fl64 (real_of_int a / 10 ^ 8)" 15] by simp
  then have "process_cluster (query_result []) 3 cluster = Inr (Some p)"
    using len ts r p by (simp add: process_cluster_def Let_def query_result_def)
  then show ?thesis using ps sc by auto
qed

lemma two_groups_run:
  "\<exists>ps. detect_patterns (query_result two_groups) (query_result [])
          (dbscan_labels [0, 0, 0, 1, 1, 1]) 30 3 1 (1 / 10000) = Inr ps
      \<and> map pattern_score ps = [55, 45]"
proof -
  obtain p0 where p0: "process_cluster (query_result []) 3 (take 3 two_groups) = Inr (Some p0)"
    and s0: "pattern_score p0 = 45"
    using process_three_of_one_amount[OF first_group_amounts, of 1700000000] first_group_times
      round_6375
    by (auto simp add: fl64_simps)
  obtain p1 where p1: "process_cluster (query_result []) 3 (drop 3 two_groups) = Inr (Some p1)"
    and s1: "pattern_score p1 = 55"
    using process_three_of_one_amount[OF second_group_amounts, of 1700010800] second_group_times
      round_500
    by (auto simp add: fl64_simps)
  have "collect_patterns (query_result []) 3 [(0, take 3 two_groups), (1, drop 3 two_groups)] []
      = Inr [p0, p1]"
    using p0 p1 by simp
  then have "detect_patterns (query_result two_groups) (query_result [])
          (dbscan_labels [0, 0, 0, 1, 1, 1]) 30 3 1 (1 / 10000)
       = Inr (py_sort_reverse pattern_score [p0, p1])"
    using two_groups_clusters
    by (simp add: detect_patterns_def Let_def two_groups_length query_result_def)
  moreover have "py_sort_reverse pattern_score [p0, p1] = [p1, p0]"
    using s0 s1 by (simp add: py_sort_reverse_def)
  ultimately show ?thesis using s0 s1 by simp
qed


theorem detect_patterns_filtered_and_ranked_witness:
  "\<exists>ps. detect_patterns (query_result two_groups)
          (query_result []) (dbscan_labels [0, 0, 0, 1, 1, 1]) 30 3 1 (1 / 10000) = Inr ps
      \<and> map pattern_score ps = [55, 45]
      \<and> (\<forall>p\<in>set ps. 35 \<le> pattern_score p)
      \<and> sorted_wrt (\<lambda>p q. pattern_score q \<le> pattern_score p) ps
      \<and> (\<exists>clusters patterns.
            cluster_by_amount (dbscan_labels [0, 0, 0, 1, 1, 1]) two_groups (1 / 10000) 3
              = Inr clusters
          \<and> collect_patterns (query_result []) 3 clusters [] = Inr patterns
          \<and> (\<forall>k. filter (\<lambda>p. pattern_score p = k) ps
                 = filter (\<lambda>p. pattern_score p = k) patterns))"
proof -
  obtain ps where run: "detect_patterns (query_result two_groups)
          (query_result []) (dbscan_labels [0, 0, 0, 1, 1, 1]) 30 3 1 (1 / 10000) = Inr ps"
    and sc: "map pattern_score ps = [55, 45]"
    using two_groups_run by (elim exE conjE)
  from detect_patterns_filtered_and_ranked[OF run]
  have "(\<forall>p\<in>set ps. 35 \<le> pattern_score p)
      \<and> sorted_wrt (\<lambda>p q. pattern_score q \<le> pattern_score p) ps
      \<and> (\<exists>clusters patterns.
            cluster_by_amount (dbscan_labels [0, 0, 0, 1, 1, 1]) two_groups (1 / 10000) 3
              = Inr clusters
          \<and> collect_patterns (query_result []) 3 clusters [] = Inr patterns
          \<and> (\<forall>k. filter (\<lambda>p. pattern_score p = k) ps
                 = filter (\<lambda>p. pattern_score p = k) patterns))"
    by (auto simp add: query_result_def)
  with run sc show ?thesis
    by - (rule exI[of _ ps], rule conjI, assumption, rule conjI, assumption, assumption)
qed


section \<open>Properties of the clusterer's grouping\<close>

lemma map_of_dict_append:
  "map_of (dict_append cl l t) l' =
     (if l' = l then Some ((case map_of cl l of None \<Rightarrow> [] | Some m \<Rightarrow> m) @ [t])
      else map_of cl l')"
  by (auto simp add: dict_append_def update_conv' map_add_def split: option.splits)

lemma group_by_label_map_of:
  assumes "i + length labels \<le> length ds"
  shows "\<exists>cl'. group_by_label labels i ds cl = Inr cl'
     \<and> (\<forall>l. map_of cl' l =
          (let new = map snd (filter (\<lambda>p. fst p = l) (zip labels (drop i ds)))
           in if l = -1 \<or> new = [] then map_of cl l
              else Some ((case map_of cl l of None \<Rightarrow> [] | Some m \<Rightarrow> m) @ new)))"
  using assms
proof (induction labels arbitrary: i cl)
  case Nil
  then show ?case by simp
next
  case (Cons l0 ls)
  have i: "i < length ds" using Cons.prems by simp
  have d: "drop i ds = ds ! i # drop (Suc i) ds"
    using i by (simp add: Cons_nth_drop_Suc)
  have le: "Suc i + length ls \<le> length ds" using Cons.prems by simp
  show ?case
  proof (cases "l0 = -1")
    case True
    obtain cl' where 1: "group_by_label ls (Suc i) ds cl = Inr cl'"
      and 2: "\<forall>l. map_of cl' l =
          (let new = map snd (filter (\<lambda>p. fst p = l) (zip ls (drop (Suc i) ds)))
           in if l = -1 \<or> new = [] then map_of cl l
              else Some ((case map_of cl l of None \<Rightarrow> [] | Some m \<Rightarrow> m) @ new))"
      using Cons.IH[OF le, of cl] by blast
    show ?thesis
      using True 1 2 d by (auto simp add: Let_def)
  next
    case False
    let ?cl2 = "dict_append cl l0 (ds ! i)"
    obtain cl' where 1: "group_by_label ls (Suc i) ds ?cl2 = Inr cl'"
      and 2: "\<forall>l. map_of cl' l =
          (let new = map snd (filter (\<lambda>p. fst p = l) (zip ls (drop (Suc i) ds)))
           in if l = -1 \<or> new = [] then map_of ?cl2 l
              else Some ((case map_of ?cl2 l of None \<Rightarrow> [] | Some m \<Rightarrow> m) @ new))"
      using Cons.IH[OF le, of ?cl2] by blast
    show ?thesis
      using False i 1 2 d by (auto simp add: Let_def map_of_dict_append)
  qed
qed


subsection \<open>Records with a non-positive amount\<close>

lemma int64_id: "- (2 ^ 63) \<le> x \<Longrightarrow> x < 2 ^ 63 \<Longrightarrow> int64 x = x"
  by (simp add: int64_def)

lemma log_amounts_nth:
  assumes "i < length deshields"
    and "- (2 ^ 63) \<le> amount_zat (deshields ! i)"
    and "amount_zat (deshields ! i) < 2 ^ 63 - 1"
  shows "log_amounts deshields ! i =
     (if amount_zat (deshields ! i) \<ge> 0
        then Finite (log 10 (real_of_int (amount_zat (deshields ! i)) + 1))
      else if amount_zat (deshields ! i) = - 1 then NegInf else NaN)"
proof -
  have "int64 (amount_zat (deshields ! i) + 1) = amount_zat (deshields ! i) + 1"
    using assms(2,3) by (intro int64_id) simp_all
  then show ?thesis
    using assms(1) by (simp add: log_amounts_def np_log10_def)
qed

lemma grouping_of_labels:
  assumes "\<not> int (length deshields) < min_samples"
    and "dbscan eps min_samples (log_amounts deshields) = Inr labels"
    and "length labels = length deshields"
  shows "\<exists>clusters. cluster_by_amount dbscan deshields eps min_samples = Inr clusters
          \<and> map_of clusters (- 1) = None
          \<and> (\<forall>i<length deshields. labels ! i \<noteq> - 1 \<longrightarrow>
                (\<exists>members. map_of clusters (labels ! i) = Some members
                    \<and> deshields ! i \<in> set members))"
proof -
  have le: "0 + length labels \<le> length deshields" using assms(3) by simp
  obtain clusters where g: "group_by_label labels 0 deshields [] = Inr clusters"
    and m: "\<forall>l. map_of clusters l =
          (let new = map snd (filter (\<lambda>p. fst p = l) (zip labels (drop 0 deshields)))
           in if l = -1 \<or> new = [] then map_of [] l
              else Some ((case map_of [] l of None \<Rightarrow> [] | Some m \<Rightarrow> m) @ new))"
    using group_by_label_map_of[OF le, of "[]"] by blast
  have c: "cluster_by_amount dbscan deshields eps min_samples = Inr clusters"
    using assms(1,2) g by (simp add: cluster_by_amount_def)
  have noise: "map_of clusters (- 1) = None"
    using m by (simp add: Let_def)
  have members: "\<exists>members. map_of clusters (labels ! i) = Some members
      \<and> deshields ! i \<in> set members"
    if i: "i < length deshields" and l: "labels ! i \<noteq> - 1" for i
  proof -
    let ?new = "map snd (filter (\<lambda>p. fst p = labels ! i) (zip labels deshields))"
    have "(labels ! i, deshields ! i) \<in> set (zip labels deshields)"
      using i assms(3) by (auto simp add: set_zip)
    then have in_new: "deshields ! i \<in> set ?new"
      by force
    have "?new \<noteq> []"
    proof
      assume "?new = []"
      with in_new show False by (simp only: list.set empty_iff)
    qed
    then have "map_of clusters (labels ! i) = Some ?new"
      using m l by (simp add: Let_def)
    with in_new show ?thesis by blast
  qed
  show ?thesis
    using c noise members by auto
qed

lemma warnings_of_amounts:
  assumes "\<not> int (length deshields) < min_samples"
  shows "(\<forall>t\<in>set deshields. 0 \<le> amount_zat t \<and> amount_zat t < 2 ^ 63 - 1) \<longrightarrow>
           cluster_by_amount_warnings deshields min_samples = {}"
    and "(\<exists>t\<in>set deshields. amount_zat t = - 1) \<longrightarrow>
           DivideByZero \<in> cluster_by_amount_warnings deshields min_samples"
    and "(\<exists>t\<in>set deshields. - (2 ^ 63) \<le> amount_zat t \<and> amount_zat t < - 1) \<longrightarrow>
           InvalidValue \<in> cluster_by_amount_warnings deshields min_samples"
proof -
  show "(\<forall>t\<in>set deshields. 0 \<le> amount_zat t \<and> amount_zat t < 2 ^ 63 - 1) \<longrightarrow>
           cluster_by_amount_warnings deshields min_samples = {}"
  proof
    assume h: "\<forall>t\<in>set deshields. 0 \<le> amount_zat t \<and> amount_zat t < 2 ^ 63 - 1"
    have "int64 (amount_zat t + 1) = amount_zat t + 1" if "t \<in> set deshields" for t
      using h that by (intro int64_id) auto
    then have "\<forall>t\<in>set deshields. 0 < int64 (amount_zat t + 1)"
      using h by auto
    then show "cluster_by_amount_warnings deshields min_samples = {}"
      using assms
      by (auto simp add: cluster_by_amount_warnings_def log10_warnings_def list_ex_iff)
  qed
  show "(\<exists>t\<in>set deshields. amount_zat t = - 1) \<longrightarrow>
           DivideByZero \<in> cluster_by_amount_warnings deshields min_samples"
  proof
    assume "\<exists>t\<in>set deshields. amount_zat t = - 1"
    then obtain t where t: "t \<in> set deshields" "amount_zat t = - 1" by blast
    have "int64 (amount_zat t + 1) = 0"
      using t(2) by (simp add: int64_def)
    then have "\<exists>t\<in>set deshields. int64 (amount_zat t + 1) = 0"
      using t(1) by blast
    then show "DivideByZero \<in> cluster_by_amount_warnings deshields min_samples"
      using assms
      by (auto simp add: cluster_by_amount_warnings_def log10_warnings_def list_ex_iff)
  qed
  show "(\<exists>t\<in>set deshields. - (2 ^ 63) \<le> amount_zat t \<and> amount_zat t < - 1) \<longrightarrow>
           InvalidValue \<in> cluster_by_amount_warnings deshields min_samples"
  proof
    assume "\<exists>t\<in>set deshields. - (2 ^ 63) \<le> amount_zat t \<and> amount_zat t < - 1"
    then obtain t where t: "t \<in> set deshields" "- (2 ^ 63) \<le> amount_zat t" "amount_zat t < - 1"
      by blast
    have "int64 (amount_zat t + 1) = amount_zat t + 1"
      using t(2,3) by (intro int64_id) simp_all
    then have "int64 (amount_zat t + 1) < 0"
      using t(3) by simp
    then have "\<exists>t\<in>set deshields. int64 (amount_zat t + 1) < 0"
      using t(1) by blast
    then show "InvalidValue \<in> cluster_by_amount_warnings deshields min_samples"
      using assms
      by (auto simp add: cluster_by_amount_warnings_def log10_warnings_def list_ex_iff)
  qed
qed

text \<open>
  Claim C9, as the code has it. The clusterer has no validation step and
  excludes no record for its amount. For a batch of at least \<open>min_samples\<close>
  records:
  \<^item> DBSCAN receives one point per record, in input order, and the point of a
    record whose amount \<open>a\<close> fits int64 (with \<open>a + 1\<close>) is \<open>log10 (a + 1)\<close> for
    \<open>a \<ge> 0\<close>, minus infinity for \<open>a = -1\<close> and NaN for \<open>a < -1\<close>;
  \<^item> the outcome is DBSCAN's: when DBSCAN raises, the clusterer fails with
    that error; when it returns one label per record, the clusterer returns
    the clusters, none of them under the noise label \<open>-1\<close>, and every record
    whose label is not \<open>-1\<close>, whatever its amount, is a member of the cluster
    of its label;
  \<^item> up to the call of DBSCAN no warning is issued when every amount is at
    least 0; the warnings that can be issued are numpy's for the whole array,
    "divide by zero" when some amount is \<open>-1\<close> and "invalid value" when some
    amount is below \<open>-1\<close>.
\<close>

theorem no_input_validation:
  assumes "\<not> int (length deshields) < min_samples"
  shows "length (log_amounts deshields) = length deshields
     \<and> (\<forall>i<length deshields.
           - (2 ^ 63) \<le> amount_zat (deshields ! i) \<and> amount_zat (deshields ! i) < 2 ^ 63 - 1 \<longrightarrow>
           log_amounts deshields ! i =
             (if amount_zat (deshields ! i) \<ge> 0
                then Finite (log 10 (real_of_int (amount_zat (deshields ! i)) + 1))
              else if amount_zat (deshields ! i) = - 1 then NegInf else NaN))
     \<and> (\<forall>e. dbscan eps min_samples (log_amounts deshields) = Inl e \<longrightarrow>
           cluster_by_amount dbscan deshields eps min_samples = Inl e)
     \<and> (\<forall>labels. dbscan eps min_samples (log_amounts deshields) = Inr labels
             \<and> length labels = length deshields \<longrightarrow>
           (\<exists>clusters. cluster_by_amount dbscan deshields eps min_samples = Inr clusters
              \<and> map_of clusters (- 1) = None
              \<and> (\<forall>i<length deshields. labels ! i \<noteq> - 1 \<longrightarrow>
                    (\<exists>members. map_of clusters (labels ! i) = Some members
                        \<and> deshields ! i \<in> set members))))
     \<and> ((\<forall>t\<in>set deshields. 0 \<le> amount_zat t \<and> amount_zat t < 2 ^ 63 - 1) \<longrightarrow>
           cluster_by_amount_warnings deshields min_samples = {})
     \<and> ((\<exists>t\<in>set deshields. amount_zat t = - 1) \<longrightarrow>
           DivideByZero \<in> cluster_by_amount_warnings deshields min_samples)
     \<and> ((\<exists>t\<in>set deshields. - (2 ^ 63) \<le> amount_zat t \<and> amount_zat t < - 1) \<longrightarrow>
           InvalidValue \<in> cluster_by_amount_warnings deshields min_samples)"
proof (intro conjI)
  show "length (log_amounts deshields) = length deshields"
    by (simp add: log_amounts_def)
  show "\<forall>i<length deshields.
           - (2 ^ 63) \<le> amount_zat (deshields ! i) \<and> amount_zat (deshields ! i) < 2 ^ 63 - 1 \<longrightarrow>
           log_amounts deshields ! i =
             (if amount_zat (deshields ! i) \<ge> 0
                then Finite (log 10 (real_of_int (amount_zat (deshields ! i)) + 1))
              else if amount_zat (deshields ! i) = - 1 then NegInf else NaN)"
    using log_amounts_nth by blast
  show "\<forall>e. dbscan eps min_samples (log_amounts deshields) = Inl e \<longrightarrow>
           cluster_by_amount dbscan deshields eps min_samples = Inl e"
    using assms by (simp add: cluster_by_amount_def)
  show "\<forall>labels. dbscan eps min_samples (log_amounts deshields) = Inr labels
             \<and> length labels = length deshields \<longrightarrow>
           (\<exists>clusters. cluster_by_amount dbscan deshields eps min_samples = Inr clusters
              \<and> map_of clusters (- 1) = None
              \<and> (\<forall>i<length deshields. labels ! i \<noteq> - 1 \<longrightarrow>
                    (\<exists>members. map_of clusters (labels ! i) = Some members
                        \<and> deshields ! i \<in> set members)))"
    using grouping_of_labels[OF assms] by blast
  show "(\<forall>t\<in>set deshields. 0 \<le> amount_zat t \<and> amount_zat t < 2 ^ 63 - 1) \<longrightarrow>
           cluster_by_amount_warnings deshields min_samples = {}"
    by (rule warnings_of_amounts(1)[OF assms])
  show "(\<exists>t\<in>set deshields. amount_zat t = - 1) \<longrightarrow>
           DivideByZero \<in> cluster_by_amount_warnings deshields min_samples"
    by (rule warnings_of_amounts(2)[OF assms])
  show "(\<exists>t\<in>set deshields. - (2 ^ 63) \<le> amount_zat t \<and> amount_zat t < - 1) \<longrightarrow>
           InvalidValue \<in> cluster_by_amount_warnings deshields min_samples"
    by (rule warnings_of_amounts(3)[OF assms])
qed

text \<open>
  Two batches of three records. The records of \<open>zero_batch\<close> have amount 0:
  their points are 0, no warning is issued, and with the label 0 for each of
  them they are the members of cluster 0. The records of \<open>negative_batch\<close> have
  the amounts -5, -1 and 1 ZEC: the points of the first two are NaN and minus
  infinity, numpy issues both warnings, and when DBSCAN raises ValueError on
  such points the clusterer fails with it.
\<close>

lemma zero_batch_facts:
  "length zero_batch = 3"
  "map amount_zat zero_batch = [0, 0, 0]"
  "map block_time zero_batch = [1700000000, 1700003600, 1700007200]"
  by (simp_all add: zero_batch_def mixed_cluster_def eval_nat_numeral)

lemma zero_batch_log_amounts: "log_amounts zero_batch = [Finite 0, Finite 0, Finite 0]"
  by (simp add: log_amounts_def zero_batch_def mixed_cluster_def np_log10_def int64_def
        eval_nat_numeral)

lemma zero_batch_clusters:
  "cluster_by_amount (dbscan_labels [0, 0, 0]) zero_batch (1 / 10000) 3 = Inr [(0, zero_batch)]"
  by (simp add: cluster_by_amount_def dbscan_labels_def dict_append_def
        zero_batch_def mixed_cluster_def eval_nat_numeral)

lemma negative_batch_facts:
  "length negative_batch = 3"
  "map amount_zat negative_batch = [- 5, - 1, 100000000]"
  by (simp_all add: negative_batch_def mixed_cluster_def eval_nat_numeral)

theorem no_input_validation_witness:
  "(\<not> int (length zero_batch) < 3
     \<and> map amount_zat zero_batch = [0, 0, 0]
     \<and> log_amounts zero_batch ! 1 = Finite 0
     \<and> (\<exists>clusters. cluster_by_amount (dbscan_labels [0, 0, 0]) zero_batch (1 / 10000) 3
              = Inr clusters
          \<and> map_of clusters (- 1) = None
          \<and> (\<exists>members. map_of clusters 0 = Some members \<and> zero_batch ! 1 \<in> set members))
     \<and> cluster_by_amount_warnings zero_batch 3 = {})
   \<and> (\<not> int (length negative_batch) < 3
     \<and> map amount_zat negative_batch = [- 5, - 1, 100000000]
     \<and> log_amounts negative_batch ! 0 = NaN
     \<and> log_amounts negative_batch ! 1 = NegInf
     \<and> cluster_by_amount (dbscan_raises ValueError) negative_batch (1 / 10000) 3
          = Inl ValueError
     \<and> DivideByZero \<in> cluster_by_amount_warnings negative_batch 3
     \<and> InvalidValue \<in> cluster_by_amount_warnings negative_batch 3)"
proof -
  have z0: "\<not> int (length zero_batch) < 3"
    by (simp add: zero_batch_facts)
  have za: "amount_zat (zero_batch ! 0) = 0" "amount_zat (zero_batch ! 1) = 0"
      "amount_zat (zero_batch ! 2) = 0"
    by (simp_all add: zero_batch_def mixed_cluster_def eval_nat_numeral)
  note Z = no_input_validation[where deshields = zero_batch and min_samples = 3
      and dbscan = "dbscan_labels [0, 0, 0]" and eps = "1 / 10000", OF z0]
  have z1: "log_amounts zero_batch ! 1 = Finite 0"
    using Z za(2) by (simp add: zero_batch_facts)
  have "dbscan_labels [0, 0, 0] (1 / 10000) 3 (log_amounts zero_batch) = Inr [0, 0, 0]
      \<and> length [0, 0, 0 :: int] = length zero_batch"
    by (simp add: dbscan_labels_def zero_batch_facts)
  then obtain clusters where
    c: "cluster_by_amount (dbscan_labels [0, 0, 0]) zero_batch (1 / 10000) 3 = Inr clusters"
    and n: "map_of clusters (- 1) = None"
    and m: "\<forall>i<length zero_batch. [0, 0, 0 :: int] ! i \<noteq> - 1 \<longrightarrow>
                    (\<exists>members. map_of clusters ([0, 0, 0] ! i) = Some members
                        \<and> zero_batch ! i \<in> set members)"
    using Z by blast
  have "\<exists>members. map_of clusters 0 = Some members \<and> zero_batch ! 1 \<in> set members"
    using m[rule_format, of 1] by (simp add: zero_batch_facts)
  then have z2: "\<exists>clusters. cluster_by_amount (dbscan_labels [0, 0, 0]) zero_batch (1 / 10000) 3
              = Inr clusters
          \<and> map_of clusters (- 1) = None
          \<and> (\<exists>members. map_of clusters 0 = Some members \<and> zero_batch ! 1 \<in> set members)"
    using c n by blast
  have "\<forall>t\<in>set zero_batch. 0 \<le> amount_zat t \<and> amount_zat t < 2 ^ 63 - 1"
    by (simp add: zero_batch_def mixed_cluster_def eval_nat_numeral)
  then have z3: "cluster_by_amount_warnings zero_batch 3 = {}"
    using Z by blast
  have n0: "\<not> int (length negative_batch) < 3"
    by (simp add: negative_batch_facts)
  have na: "amount_zat (negative_batch ! 0) = - 5" "amount_zat (negative_batch ! 1) = - 1"
    by (simp_all add: negative_batch_def mixed_cluster_def eval_nat_numeral)
  note N = no_input_validation[where deshields = negative_batch and min_samples = 3
      and dbscan = "dbscan_raises ValueError" and eps = "1 / 10000", OF n0]
  have n1: "log_amounts negative_batch ! 0 = NaN"
    using N na(1) by (simp add: negative_batch_facts)
  have n2: "log_amounts negative_batch ! 1 = NegInf"
    using N na(2) by (simp add: negative_batch_facts)
  have "dbscan_raises ValueError (1 / 10000) 3 (log_amounts negative_batch) = Inl ValueError"
    by (simp add: dbscan_raises_def)
  then have n3: "cluster_by_amount (dbscan_raises ValueError) negative_batch (1 / 10000) 3
          = Inl ValueError"
    using N by blast
  have "\<exists>t\<in>set negative_batch. amount_zat t = - 1"
    by (simp add: negative_batch_def mixed_cluster_def eval_nat_numeral)
  then have n4: "DivideByZero \<in> cluster_by_amount_warnings negative_batch 3"
    using N by blast
  have "\<exists>t\<in>set negative_batch. - (2 ^ 63) \<le> amount_zat t \<and> amount_zat t < - 1"
    by (simp add: negative_batch_def mixed_cluster_def eval_nat_numeral)
  then have n5: "InvalidValue \<in> cluster_by_amount_warnings negative_batch 3"
    using N by blast
  show ?thesis
    using z0 zero_batch_facts(2) z1 z2 z3 n0 negative_batch_facts(2) n1 n2 n3 n4 n5
    by (intro conjI)
qed

text \<open>
  Claim C9 as stated fails on a batch of three records of amount zero (what
  the query returns them for a minimum amount of zero): their points are
  \<open>log10 1 = 0\<close>, nothing warns, DBSCAN puts three coinciding points into one
  cluster (label 0 for each), the clusterer returns that cluster with the
  three records in it, and the run reports it as a pattern with score 45.
\<close>

theorem zero_amounts_counterexample:
  "map amount_zat zero_batch = [0, 0, 0]
   \<and> log_amounts zero_batch = [Finite 0, Finite 0, Finite 0]
   \<and> cluster_by_amount_warnings zero_batch 3 = {}
   \<and> cluster_by_amount (dbscan_labels [0, 0, 0]) zero_batch (1 / 10000) 3
        = Inr [(0, zero_batch)]
   \<and> map_sum id (map txids)
        (detect_patterns (query_result zero_batch) (query_result [])
           (dbscan_labels [0, 0, 0]) 30 3 0 (1 / 10000))
        = Inr [map txid zero_batch]
   \<and> map_sum id (map pattern_score)
        (detect_patterns (query_result zero_batch) (query_result [])
           (dbscan_labels [0, 0, 0]) 30 3 0 (1 / 10000))
        = Inr [45]"
proof -
  have am: "map amount_zat zero_batch = replicate 3 0"
    by (simp add: zero_batch_facts eval_nat_numeral)
  have r0: "round_score (fl64 (real_of_int 0 / 10 ^ 8)) 15 = 8"
    by (simp add: round_score_def fl64_simps)
  have small: "\<bar>0 :: int\<bar> < 2 ^ 53" by simp
  obtain p where p: "process_cluster (query_result []) 3 zero_batch = Inr (Some p)"
    and s: "pattern_score p = 45"
    using process_three_of_one_amount[OF am _ small, of 1700000000] zero_batch_facts(3) r0
    by auto
  have t: "txids p = map txid zero_batch"
    using p
    by (auto simp add: process_cluster_def Let_def map_sum_def
        split: if_splits sum.splits dest!: build_pattern_score)
  have "\<forall>t\<in>set zero_batch. 0 \<le> amount_zat t \<and> amount_zat t < 2 ^ 63 - 1"
    by (simp add: zero_batch_def mixed_cluster_def eval_nat_numeral)
  then have w: "cluster_by_amount_warnings zero_batch 3 = {}"
    using warnings_of_amounts(1)[of zero_batch 3] by (simp add: zero_batch_facts)
  have "collect_patterns (query_result []) 3 [(0, zero_batch)] [] = Inr [p]"
    using p by simp
  then have "detect_patterns (query_result zero_batch) (query_result [])
           (dbscan_labels [0, 0, 0]) 30 3 0 (1 / 10000) = Inr [p]"
    using zero_batch_clusters
    by (simp add: detect_patterns_def Let_def zero_batch_facts query_result_def
        py_sort_reverse_def)
  then show ?thesis
    using s t w zero_batch_facts(2) zero_batch_log_amounts zero_batch_clusters by simp
qed

end
